theory Spec2Isabelle
  imports Complex_Main
begin

section \<open>Errors\<close>

text \<open>
  The exceptions the sources raise.  A call that throws keeps the mutations it made before
  the throw, so the outcome of a method on a state of type \<open>'s\<close> is a value of
  \<open>(error \<times> 's) + 's\<close>: \<open>Inr s'\<close> is a normal return in state \<open>s'\<close>, and
  \<open>Inl (e, s')\<close> is the exception \<open>e\<close>, thrown in state \<open>s'\<close>.
\<close>

datatype error =
    InvalidContext            \<comment> \<open>\<open>Error("Invalid context")\<close>\<close>
  | AlreadyProvided           \<comment> \<open>\<open>Error("RoomObject already provided with a context.")\<close>\<close>
  | InvalidDependencies       \<comment> \<open>\<open>Error("Invalid dependencies in BaseAvatar")\<close>\<close>
  | InvalidLookOptions        \<comment> \<open>\<open>Error("Invalid look options")\<close>\<close>
  | CantCreateAsset           \<comment> \<open>\<open>Error("Cant create asset when avatar loader result not present")\<close>\<close>
  | TypeError                 \<comment> \<open>a property read on \<open>undefined\<close>\<close>

type_synonym 's outcome = "(error \<times> 's) + 's"

definition state_of :: "'s outcome \<Rightarrow> 's" where
  "state_of r = (case r of Inl (e, s) \<Rightarrow> s | Inr s \<Rightarrow> s)"

definition returns :: "'s outcome \<Rightarrow> bool" where
  "returns r = (case r of Inl x \<Rightarrow> False | Inr s \<Rightarrow> True)"

section \<open>RoomObject.ts\<close>

text \<open>
  The two private fields of the abstract class \<open>RoomObject\<close>.  The context type \<open>'c\<close>
  stands for \<open>IRoomContext\<close>.
\<close>

record 'c RoomObject =
  r_context :: "'c option"
  isDestroyed :: bool

text \<open>A freshly constructed object: \<open>_context\<close> undefined, \<open>_isDestroyed = false\<close>.\<close>

definition new_RoomObject :: "'c RoomObject" where
  "new_RoomObject = \<lparr>r_context = None, isDestroyed = False\<rparr>"

definition mounted :: "'c RoomObject \<Rightarrow> bool" where
  "mounted this = (r_context this \<noteq> None)"

definition getRoomContext :: "'c RoomObject \<Rightarrow> error + 'c" where
  "getRoomContext this =
     (case r_context this of None \<Rightarrow> Inl InvalidContext | Some c \<Rightarrow> Inr c)"

text \<open>
  \<open>registered()\<close> and \<open>destroyed()\<close> are abstract, and the container that
  \<open>destroy\<close> calls is reached through the context.  Everything outside the two private
  fields is a world of type \<open>'w\<close>; the hooks are parameters \<open>registered\<close> and
  \<open>destroyed\<close> acting on the world, and \<open>removeRoomObject c\<close> is the call
  \<open>c.roomObjectContainer.removeRoomObject(this)\<close>.  The private fields are out of the
  reach of the hooks.  A container that calls \<open>destroy()\<close> back while it removes the
  object meets \<open>_isDestroyed = true\<close> and returns at once, which is what the comment in
  \<open>destroy\<close> is about, so the parameters leave such a call out.
\<close>

definition setParent ::
  "('w \<Rightarrow> 'w) \<Rightarrow> 'c \<Rightarrow> 'c RoomObject \<times> 'w \<Rightarrow> ('c RoomObject \<times> 'w) outcome" where
  "setParent registered room s =
     (case s of (this, w) \<Rightarrow>
        if r_context this \<noteq> None then Inl (AlreadyProvided, (this, w))
        else Inr (this\<lparr>isDestroyed := False, r_context := Some room\<rparr>, registered w))"

definition destroy ::
  "('c \<Rightarrow> 'w \<Rightarrow> 'w) \<Rightarrow> ('w \<Rightarrow> 'w) \<Rightarrow> 'c RoomObject \<times> 'w \<Rightarrow> ('c RoomObject \<times> 'w) outcome" where
  "destroy removeRoomObject destroyed s =
     (case s of (this, w) \<Rightarrow>
        if isDestroyed this then Inr (this, w)
        else
          let this1 = this\<lparr>isDestroyed := True\<rparr> in
          case getRoomContext this1 of
            Inl e \<Rightarrow> Inl (e, (this1, w))
          | Inr c \<Rightarrow> Inr (this1\<lparr>r_context := None\<rparr>, destroyed (removeRoomObject c w)))"

text \<open>
  An object has been attached when a \<open>setParent\<close> has succeeded on it at some time:
  it then holds a context, or a later \<open>destroy\<close> has set the flag.  The fresh object is
  the only state outside.
\<close>

definition has_been_attached :: "'c RoomObject \<Rightarrow> bool" where
  "has_been_attached this = (r_context this \<noteq> None \<or> isDestroyed this)"

text \<open>The calls an object makes, as a log, for the concrete runs below.\<close>

datatype call = Call_registered | Call_destroyed | Call_removeRoomObject nat

definition log_registered :: "call list \<Rightarrow> call list" where
  "log_registered w = w @ [Call_registered]"



section \<open>Sequencing calls that may throw\<close>

definition andThen :: "'s outcome \<Rightarrow> ('s \<Rightarrow> 's outcome) \<Rightarrow> 's outcome" where
  "andThen m f = (case m of Inl x \<Rightarrow> Inl x | Inr s \<Rightarrow> f s)"

text \<open>\<open>xs.forEach(f)\<close>, and a \<open>for\<close> loop over \<open>xs\<close>: the first throw ends the loop.\<close>

fun forEach :: "('a \<Rightarrow> 's \<Rightarrow> 's outcome) \<Rightarrow> 'a list \<Rightarrow> 's \<Rightarrow> 's outcome" where
  "forEach f [] s = Inr s"
| "forEach f (a # as) s = andThen (f a s) (forEach f as)"

text \<open>A block of statements, run in order.\<close>

definition block :: "('s \<Rightarrow> 's outcome) list \<Rightarrow> 's \<Rightarrow> 's outcome" where
  "block fs s = forEach (\<lambda>f. f) fs s"

section \<open>Room.ts\<close>

subsection \<open>Data\<close>

text \<open>
  A JavaScript \<open>number\<close> is modelled as a real: the room coordinates may be fractional,
  and rounding is left out.  A \<open>PIXI.Texture\<close> is an opaque handle.
\<close>

type_synonym texture = nat

record point =
  p_x :: real
  p_y :: real

record TileMapBounds =
  minX :: real
  minY :: real
  maxX :: real
  maxY :: real

text \<open>
  Modelled from the spec: the declaration of \<open>ParsedTileType\<close> (\<open>util/parseTileMap\<close>) is
  not among the sources.  The variants are those of the spec's data model (tile, wall,
  stairs, door), with the fields that \<open>Room.updateTiles\<close> reads, and one more for a cell
  of none of these types, for which \<open>updateTiles\<close> takes no branch.
\<close>

datatype wall_kind = RowWall | ColWall | OuterCorner | InnerCorner

datatype ParsedTileType =
    PWall wall_kind real "bool option"    \<comment> \<open>\<open>kind\<close>, \<open>height\<close>, \<open>hideBorder\<close>\<close>
  | PTile real                            \<comment> \<open>\<open>z\<close>\<close>
  | PStairs real real                     \<comment> \<open>\<open>kind\<close>, \<open>z\<close>\<close>
  | PDoor real                            \<comment> \<open>\<open>z\<close>\<close>
  | PHidden

datatype wall_direction = Left | Right | Corner

datatype placement = Plane | Object | NoPlacement

text \<open>
  The value given to the \<open>wallTexture\<close> and \<open>floorTexture\<close> setters: a texture, or a
  promise of one.
\<close>

datatype texture_source = Immediate texture | Promised nat

text \<open>
  The context that \<open>addRoomObject\<close> hands to an object.  Its fields \<open>geometry\<close>,
  \<open>roomObjectContainer\<close> and \<open>tilemap\<close> are the room itself, \<open>visualization\<close> and
  \<open>landscapeContainer\<close> are parts of it; the others are the room's dependencies, opaque
  handles.
\<close>

record IRoomContext =
  c_animationTicker :: nat
  c_furnitureLoader :: nat
  c_avatarLoader :: nat
  c_hitDetection :: nat
  c_configuration :: nat

text \<open>
  Modelled from the spec: the classes \<open>Wall\<close>, \<open>Tile\<close>, \<open>Stair\<close> and \<open>TileCursor\<close> are
  not among the sources.  Each is a \<open>RoomObject\<close> (the \<open>base\<close> field) that holds the
  options \<open>Room.updateTiles\<close> constructs it with; a property that the room sets on an
  object (\<open>wall.wallHeight = ...\<close>) is stored in the field of that name.  \<open>Tile\<close> and
  \<open>Stair\<close>, the two classes of the \<open>_floor\<close> array, share one record and differ in
  \<open>f_shape\<close>.
\<close>

record Wall =
  w_base :: "IRoomContext RoomObject"
  w_roomX :: real
  w_roomY :: real
  w_direction :: wall_direction
  w_tileHeight :: real
  w_wallHeight :: real
  w_roomZ :: real
  w_color :: "string option"
  w_texture :: "texture option"
  w_wallDepth :: real
  w_hideBorder :: "bool option"
  w_doorHeight :: "real option"
  w_side :: "bool option"

datatype floor_shape =
    TileShape bool "bool option"      \<comment> \<open>a \<open>Tile\<close>: \<open>edge\<close>, \<open>door\<close>\<close>
  | StairShape real                   \<comment> \<open>a \<open>Stair\<close>: \<open>direction\<close>\<close>

record FloorObject =
  f_base :: "IRoomContext RoomObject"
  f_shape :: floor_shape
  f_roomX :: real
  f_roomY :: real
  f_roomZ :: real
  f_tileHeight :: real
  f_color :: "string option"
  f_texture :: "texture option"

record TileCursor =
  tc_base :: "IRoomContext RoomObject"
  tc_roomX :: real
  tc_roomY :: real
  tc_roomZ :: real
  tc_door :: bool

text \<open>
  Objects are shared: a wall is in \<open>_walls\<close>, in \<open>roomObjects\<close> and may be \<open>_doorWall\<close>.
  They live in three stores, one for each class, and are referred to by their index there;
  \<open>new\<close> appends to the store.
\<close>

datatype obj_ref = WallRef nat | FloorRef nat | CursorRef nat

text \<open>The calls made on the \<open>RoomVisualization\<close>, which is not among the sources.\<close>

datatype vis_call = UpdateRoom | DisableCache | EnableCache

record Room =
  roomObjects :: "obj_ref list"
  wallOffsets :: point
  positionOffsets :: point
  parsedTileMap :: "ParsedTileType list list"
  visualization :: "vis_call list"
  tileColor :: string
  dependencies :: IRoomContext
  walls :: "nat list"
  floorObjects :: "nat list"                 \<comment> \<open>\<open>_floor\<close>\<close>
  cursors :: "nat list"
  doorWall :: "nat option"
  tileMapBounds :: TileMapBounds
  wallTexture :: "texture_source option"
  floorTexture :: "texture_source option"
  wallColor :: "string option"
  floorColor :: "string option"
  currentWallTexture :: "texture option"
  currentFloorTexture :: "texture option"
  hideWalls :: bool
  hideFloor :: bool
  wallDepth :: real
  wallHeight :: real
  tileHeight :: real
  maskOffsets :: point
  largestDiff :: real
  wallStore :: "Wall list"
  floorStore :: "FloorObject list"
  cursorStore :: "TileCursor list"
  hookLog :: "(obj_ref \<times> call) list"        \<comment> \<open>the calls of \<open>registered()\<close>\<close>

subsection \<open>Projection\<close>

definition getObjectPositionWithOffset :: "Room \<Rightarrow> real \<Rightarrow> real \<Rightarrow> point" where
  "getObjectPositionWithOffset this roomX roomY =
     \<lparr>p_x = roomX + p_x (positionOffsets this), p_y = roomY + p_y (positionOffsets this)\<rparr>"

definition getTilePositionWithOffset :: "Room \<Rightarrow> real \<Rightarrow> real \<Rightarrow> point" where
  "getTilePositionWithOffset this roomX roomY =
     \<lparr>p_x = roomX + p_x (wallOffsets this), p_y = roomY + p_y (wallOffsets this)\<rparr>"

definition getBasePosition :: "Room \<Rightarrow> real \<Rightarrow> real \<Rightarrow> placement \<Rightarrow> point" where
  "getBasePosition this roomX roomY type =
     (case type of
        Plane \<Rightarrow> getTilePositionWithOffset this roomX roomY
      | Object \<Rightarrow> getObjectPositionWithOffset this roomX roomY
      | NoPlacement \<Rightarrow> \<lparr>p_x = roomX, p_y = roomY\<rparr>)"

definition getPosition :: "Room \<Rightarrow> real \<Rightarrow> real \<Rightarrow> real \<Rightarrow> placement \<Rightarrow> point" where
  "getPosition this roomX roomY roomZ type =
     (let p = getBasePosition this roomX roomY type;
          base = 32;
          xPos = - minX (tileMapBounds this) + p_x p * base - p_y p * base;
          yPos = - minY (tileMapBounds this) + p_x p * (base / 2) + p_y p * (base / 2)
      in \<lparr>p_x = xPos, p_y = yPos - roomZ * 32\<rparr>)"

definition wallHeightWithZ :: "Room \<Rightarrow> real" where
  "wallHeightWithZ this = wallHeight this + largestDiff this * 32"

subsection \<open>Room objects in the room\<close>

definition get_base :: "obj_ref \<Rightarrow> Room \<Rightarrow> IRoomContext RoomObject" where
  "get_base ref this =
     (case ref of
        WallRef i \<Rightarrow> w_base (wallStore this ! i)
      | FloorRef i \<Rightarrow> f_base (floorStore this ! i)
      | CursorRef i \<Rightarrow> tc_base (cursorStore this ! i))"

definition set_base :: "obj_ref \<Rightarrow> IRoomContext RoomObject \<Rightarrow> Room \<Rightarrow> Room" where
  "set_base ref b this =
     (case ref of
        WallRef i \<Rightarrow> this\<lparr>wallStore := (wallStore this)[i := (wallStore this ! i)\<lparr>w_base := b\<rparr>]\<rparr>
      | FloorRef i \<Rightarrow> this\<lparr>floorStore := (floorStore this)[i := (floorStore this ! i)\<lparr>f_base := b\<rparr>]\<rparr>
      | CursorRef i \<Rightarrow>
          this\<lparr>cursorStore := (cursorStore this)[i := (cursorStore this ! i)\<lparr>tc_base := b\<rparr>]\<rparr>)"

text \<open>
  The hooks of the four classes are not among the sources; the room logs the calls of
  \<open>registered()\<close>.
\<close>

definition object_registered :: "obj_ref \<Rightarrow> Room \<Rightarrow> Room" where
  "object_registered ref this = this\<lparr>hookLog := hookLog this @ [(ref, Call_registered)]\<rparr>"

text \<open>\<open>object.setParent(room)\<close> on an object of the stores.\<close>

definition object_setParent :: "obj_ref \<Rightarrow> IRoomContext \<Rightarrow> Room \<Rightarrow> Room outcome" where
  "object_setParent ref room this =
     (case setParent (object_registered ref) room (get_base ref this, this) of
        Inl (e, (b, w)) \<Rightarrow> Inl (e, set_base ref b w)
      | Inr (b, w) \<Rightarrow> Inr (set_base ref b w))"

text \<open>
  \<open>object.destroy()\<close> on an object of the stores, \<open>RoomObject.destroy\<close> with the room as
  the container.  The context that \<open>addRoomObject\<close> hands out has
  \<open>roomObjectContainer: this\<close>, and the class \<open>Room\<close> declares no \<open>removeRoomObject\<close>:
  the call \<open>this.roomObjectContainer.removeRoomObject(this)\<close> throws a \<open>TypeError\<close>,
  after \<open>_isDestroyed\<close> is set, before the context is cleared and before \<open>destroyed()\<close>
  runs.
\<close>

definition object_destroy :: "obj_ref \<Rightarrow> Room \<Rightarrow> Room outcome" where
  "object_destroy ref this =
     (let b = get_base ref this in
      if isDestroyed b then Inr this
      else
        let b1 = b\<lparr>isDestroyed := True\<rparr> in
        case getRoomContext b1 of
          Inl e \<Rightarrow> Inl (e, set_base ref b1 this)
        | Inr c \<Rightarrow> Inl (TypeError, set_base ref b1 this))"

definition new_Wall :: "Wall \<Rightarrow> Room \<Rightarrow> nat \<times> Room" where
  "new_Wall w this = (length (wallStore this), this\<lparr>wallStore := wallStore this @ [w]\<rparr>)"

definition new_Floor :: "FloorObject \<Rightarrow> Room \<Rightarrow> nat \<times> Room" where
  "new_Floor t this = (length (floorStore this), this\<lparr>floorStore := floorStore this @ [t]\<rparr>)"

definition new_TileCursor :: "TileCursor \<Rightarrow> Room \<Rightarrow> nat \<times> Room" where
  "new_TileCursor c this =
     (length (cursorStore this), this\<lparr>cursorStore := cursorStore this @ [c]\<rparr>)"

subsection \<open>Registration and rebuild\<close>

definition addRoomObject :: "obj_ref \<Rightarrow> Room \<Rightarrow> Room outcome" where
  "addRoomObject object this =
     andThen (object_setParent object (dependencies this) this)
       (\<lambda>this. Inr (this\<lparr>roomObjects := roomObjects this @ [object]\<rparr>))"

definition registerWall :: "nat \<Rightarrow> Room \<Rightarrow> Room outcome" where
  "registerWall wall this =
     (if hideWalls this \<or> hideFloor this then Inr this
      else addRoomObject (WallRef wall) (this\<lparr>walls := walls this @ [wall]\<rparr>))"

definition registerTile :: "nat \<Rightarrow> Room \<Rightarrow> Room outcome" where
  "registerTile tile this =
     (if hideFloor this then Inr this
      else addRoomObject (FloorRef tile) (this\<lparr>floorObjects := floorObjects this @ [tile]\<rparr>))"

definition registerTileCursor :: "real \<Rightarrow> real \<Rightarrow> real \<Rightarrow> bool \<Rightarrow> Room \<Rightarrow> Room outcome" where
  "registerTileCursor roomX roomY roomZ door this =
     (case new_TileCursor \<lparr>tc_base = new_RoomObject, tc_roomX = roomX, tc_roomY = roomY,
                           tc_roomZ = roomZ, tc_door = door\<rparr> this of
        (cursor, this) \<Rightarrow>
          addRoomObject (CursorRef cursor) (this\<lparr>cursors := cursors this @ [cursor]\<rparr>))"

definition resetTiles :: "Room \<Rightarrow> Room outcome" where
  "resetTiles this =
     andThen
       (forEach object_destroy
          (map FloorRef (floorObjects this) @ map WallRef (walls this)
             @ map CursorRef (cursors this)) this)
       (\<lambda>this. Inr (this\<lparr>floorObjects := [], walls := [], cursors := [], doorWall := None\<rparr>))"

definition getWallDirection :: "ParsedTileType \<Rightarrow> wall_direction option" where
  "getWallDirection tile =
     (case tile of
        PWall kind height hideBorder \<Rightarrow>
          (if kind = RowWall then Some Left
           else if kind = ColWall then Some Right
           else if kind = OuterCorner then Some Corner
           else None)
      | _ \<Rightarrow> None)"

definition orElse :: "'a option \<Rightarrow> 'a \<Rightarrow> 'a" where
  "orElse v d = (case v of None \<Rightarrow> d | Some a \<Rightarrow> a)"

text \<open>
  The body of the inner loop of \<open>updateTiles\<close> at column \<open>x\<close> of row \<open>y\<close>, one definition
  for each of its five \<open>if\<close> statements.
\<close>

definition doorTile :: "nat \<Rightarrow> nat \<Rightarrow> ParsedTileType \<Rightarrow> Room \<Rightarrow> Room outcome" where
  "doorTile y x tile this =
     (case tile of
        PDoor z \<Rightarrow>
          block [
            (\<lambda>this.
               case new_Floor
                 \<lparr>f_base = new_RoomObject, f_shape = TileShape True (Some True),
                  f_roomX = real x - p_x (wallOffsets this),
                  f_roomY = real y - p_y (wallOffsets this),
                  f_roomZ = z, f_tileHeight = tileHeight this,
                  f_color = Some (orElse (floorColor this) (tileColor this)),
                  f_texture = None\<rparr> this of
                 (t, this) \<Rightarrow> registerTile t this),
            (\<lambda>this.
               case new_Wall
                 \<lparr>w_base = new_RoomObject,
                  w_roomX = real x - p_x (wallOffsets this),
                  w_roomY = real y - p_y (wallOffsets this),
                  w_direction = Left, w_tileHeight = tileHeight this,
                  w_wallHeight = wallHeightWithZ this, w_roomZ = z,
                  w_color = Some (orElse (wallColor this) ''#ffffff''),
                  w_texture = currentWallTexture this, w_wallDepth = wallDepth this,
                  w_hideBorder = Some True, w_doorHeight = Some 30, w_side = None\<rparr> this of
                 (wall, this) \<Rightarrow>
                   andThen (registerWall wall this)
                     (\<lambda>this. Inr (this\<lparr>doorWall := Some wall\<rparr>))),
            (\<lambda>this.
               registerTileCursor (real x - p_x (wallOffsets this))
                 (real y - p_y (wallOffsets this)) z True this)
          ] this
      | _ \<Rightarrow> Inr this)"

definition plainTile :: "nat \<Rightarrow> nat \<Rightarrow> ParsedTileType \<Rightarrow> Room \<Rightarrow> Room outcome" where
  "plainTile y x tile this =
     (case tile of
        PTile z \<Rightarrow>
          block [
            (\<lambda>this.
               case new_Floor
                 \<lparr>f_base = new_RoomObject, f_shape = TileShape True None,
                  f_roomX = real x - p_x (wallOffsets this),
                  f_roomY = real y - p_y (wallOffsets this),
                  f_roomZ = z, f_tileHeight = tileHeight this,
                  f_color = Some (orElse (floorColor this) (tileColor this)),
                  f_texture = None\<rparr> this of
                 (t, this) \<Rightarrow> registerTile t this),
            (\<lambda>this.
               registerTileCursor (real x - p_x (wallOffsets this))
                 (real y - p_y (wallOffsets this)) z False this)
          ] this
      | _ \<Rightarrow> Inr this)"

definition wallTile :: "nat \<Rightarrow> nat \<Rightarrow> ParsedTileType \<Rightarrow> Room \<Rightarrow> Room outcome" where
  "wallTile y x tile this =
     (case (getWallDirection tile, tile) of
        (Some direction, PWall kind height hideBorder) \<Rightarrow>
          (case new_Wall
             \<lparr>w_base = new_RoomObject,
              w_roomX = real x - p_x (wallOffsets this),
              w_roomY = real y - p_y (wallOffsets this),
              w_direction = direction, w_tileHeight = tileHeight this,
              w_wallHeight = wallHeightWithZ this, w_roomZ = height,
              w_color = Some (orElse (wallColor this) ''#ffffff''),
              w_texture = currentWallTexture this, w_wallDepth = wallDepth this,
              w_hideBorder = hideBorder, w_doorHeight = None, w_side = None\<rparr> this of
             (wall, this) \<Rightarrow> registerWall wall this)
      | _ \<Rightarrow> Inr this)"

definition innerCornerTile :: "nat \<Rightarrow> nat \<Rightarrow> ParsedTileType \<Rightarrow> Room \<Rightarrow> Room outcome" where
  "innerCornerTile y x tile this =
     (case tile of
        PWall kind height hideBorder \<Rightarrow>
          if kind = InnerCorner then
            block (map
              (\<lambda>direction this.
                 case new_Wall
                   \<lparr>w_base = new_RoomObject,
                    w_roomX = real x - p_x (wallOffsets this),
                    w_roomY = real y - p_y (wallOffsets this),
                    w_direction = direction, w_tileHeight = tileHeight this,
                    w_wallHeight = wallHeightWithZ this, w_roomZ = height,
                    w_color = Some ''#ffffff'', w_texture = None,
                    w_wallDepth = wallDepth this, w_hideBorder = None,
                    w_doorHeight = None, w_side = Some False\<rparr> this of
                   (wall, this) \<Rightarrow> registerWall wall this)
              [Right, Left]) this
          else Inr this
      | _ \<Rightarrow> Inr this)"

definition stairsTile :: "nat \<Rightarrow> nat \<Rightarrow> ParsedTileType \<Rightarrow> Room \<Rightarrow> Room outcome" where
  "stairsTile y x tile this =
     (case tile of
        PStairs kind z \<Rightarrow>
          block [
            (\<lambda>this.
               case new_Floor
                 \<lparr>f_base = new_RoomObject, f_shape = StairShape kind,
                  f_roomX = real x - p_x (wallOffsets this),
                  f_roomY = real y - p_y (wallOffsets this),
                  f_roomZ = z, f_tileHeight = tileHeight this,
                  f_color = Some (tileColor this), f_texture = None\<rparr> this of
                 (t, this) \<Rightarrow> registerTile t this),
            (\<lambda>this.
               registerTileCursor (real x - p_x (wallOffsets this))
                 (real y - p_y (wallOffsets this)) z False this),
            (\<lambda>this.
               registerTileCursor (real x - p_x (wallOffsets this))
                 (real y - p_y (wallOffsets this)) (z + 1) False this)
          ] this
      | _ \<Rightarrow> Inr this)"

definition updateTile :: "nat \<Rightarrow> nat \<Rightarrow> ParsedTileType \<Rightarrow> Room \<Rightarrow> Room outcome" where
  "updateTile y x tile this =
     block [doorTile y x tile, plainTile y x tile, wallTile y x tile,
            innerCornerTile y x tile, stairsTile y x tile] this"

definition updateRow :: "nat \<Rightarrow> ParsedTileType list \<Rightarrow> Room \<Rightarrow> Room outcome" where
  "updateRow y row this =
     forEach (\<lambda>xt. updateTile y (fst xt) (snd xt)) (enumerate 0 row) this"

definition updateTiles :: "Room \<Rightarrow> Room outcome" where
  "updateTiles this =
     andThen (resetTiles this)
       (\<lambda>this. forEach (\<lambda>yr. updateRow (fst yr) (snd yr)) (enumerate 0 (parsedTileMap this)) this)"

subsection \<open>Style setters\<close>

definition vis :: "vis_call \<Rightarrow> Room \<Rightarrow> Room" where
  "vis c this = this\<lparr>visualization := visualization this @ [c]\<rparr>"

text \<open>\<open>this._walls.forEach((wall) => ...)\<close> and \<open>this._floor.forEach((floor) => ...)\<close>.\<close>

definition forEach_wall :: "(Wall \<Rightarrow> Wall) \<Rightarrow> Room \<Rightarrow> Room" where
  "forEach_wall f this =
     this\<lparr>wallStore := fold (\<lambda>i ws. ws[i := f (ws ! i)]) (walls this) (wallStore this)\<rparr>"

definition forEach_floor :: "(FloorObject \<Rightarrow> FloorObject) \<Rightarrow> Room \<Rightarrow> Room" where
  "forEach_floor f this =
     this\<lparr>floorStore := fold (\<lambda>i fs. fs[i := f (fs ! i)]) (floorObjects this) (floorStore this)\<rparr>"

definition updateWallDepth :: "Room \<Rightarrow> Room" where
  "updateWallDepth this =
     vis EnableCache
       (forEach_wall (\<lambda>wall. wall\<lparr>w_wallDepth := wallDepth this\<rparr>) (vis DisableCache this))"

definition updateWallHeight :: "Room \<Rightarrow> Room" where
  "updateWallHeight this =
     vis EnableCache
       (forEach_wall (\<lambda>wall. wall\<lparr>w_wallHeight := wallHeightWithZ this\<rparr>)
          (vis DisableCache (vis UpdateRoom this)))"

definition updateTileHeight :: "Room \<Rightarrow> Room" where
  "updateTileHeight this =
     vis EnableCache
       (forEach_wall (\<lambda>wall. wall\<lparr>w_tileHeight := tileHeight this\<rparr>)
          (forEach_floor (\<lambda>floor. floor\<lparr>f_tileHeight := tileHeight this\<rparr>)
             (vis DisableCache this)))"

definition updateTextures :: "Room \<Rightarrow> Room" where
  "updateTextures this =
     vis EnableCache
       (forEach_floor
          (\<lambda>floor. floor\<lparr>f_texture := currentFloorTexture this, f_color := floorColor this\<rparr>)
          (forEach_wall
             (\<lambda>wall. wall\<lparr>w_texture := currentWallTexture this, w_color := wallColor this\<rparr>)
             (vis DisableCache this)))"

definition set_hideWalls :: "bool \<Rightarrow> Room \<Rightarrow> Room outcome" where
  "set_hideWalls v this = updateTiles (this\<lparr>hideWalls := v\<rparr>)"

definition set_hideFloor :: "bool \<Rightarrow> Room \<Rightarrow> Room outcome" where
  "set_hideFloor v this = updateTiles (this\<lparr>hideFloor := v\<rparr>)"

definition set_wallHeight :: "real \<Rightarrow> Room \<Rightarrow> Room" where
  "set_wallHeight v this = updateWallHeight (this\<lparr>wallHeight := v\<rparr>)"

definition set_tileHeight :: "real \<Rightarrow> Room \<Rightarrow> Room" where
  "set_tileHeight v this = updateTileHeight (this\<lparr>tileHeight := v\<rparr>)"

definition set_wallDepth :: "real \<Rightarrow> Room \<Rightarrow> Room" where
  "set_wallDepth v this = updateWallDepth (this\<lparr>wallDepth := v\<rparr>)"

definition set_wallColor :: "string option \<Rightarrow> Room \<Rightarrow> Room" where
  "set_wallColor v this = updateTextures (this\<lparr>wallColor := v\<rparr>)"

definition set_floorColor :: "string option \<Rightarrow> Room \<Rightarrow> Room" where
  "set_floorColor v this = updateTextures (this\<lparr>floorColor := v\<rparr>)"

text \<open>
  The texture setters store the value and call \<open>loadWallTextures\<close> or
  \<open>loadFloorTextures\<close>, which wait for it with \<open>Promise.resolve(...).then(...)\<close>: the
  setter itself changes one field, and the callback runs later, with the texture the
  promise resolved to.
\<close>

definition set_wallTexture :: "texture_source option \<Rightarrow> Room \<Rightarrow> Room" where
  "set_wallTexture v this = this\<lparr>wallTexture := v\<rparr>"

definition set_floorTexture :: "texture_source option \<Rightarrow> Room \<Rightarrow> Room" where
  "set_floorTexture v this = this\<lparr>floorTexture := v\<rparr>"

definition loadWallTextures_then :: "texture option \<Rightarrow> Room \<Rightarrow> Room" where
  "loadWallTextures_then t this = updateTextures (this\<lparr>currentWallTexture := t\<rparr>)"

definition loadFloorTextures_then :: "texture option \<Rightarrow> Room \<Rightarrow> Room" where
  "loadFloorTextures_then t this = updateTextures (this\<lparr>currentFloorTexture := t\<rparr>)"

text \<open>
  A style mutation is a call of one of the nine setters, or one of the two texture
  callbacks.  A setter that throws leaves the room in the state of the throw.
\<close>

datatype style_mutation =
    Set_hideWalls bool
  | Set_hideFloor bool
  | Set_wallHeight real
  | Set_tileHeight real
  | Set_wallDepth real
  | Set_wallColor "string option"
  | Set_floorColor "string option"
  | Set_wallTexture "texture_source option"
  | Set_floorTexture "texture_source option"
  | WallTexture_loaded "texture option"
  | FloorTexture_loaded "texture option"

fun mutate :: "style_mutation \<Rightarrow> Room \<Rightarrow> Room outcome" where
  "mutate (Set_hideWalls v) this = set_hideWalls v this"
| "mutate (Set_hideFloor v) this = set_hideFloor v this"
| "mutate (Set_wallHeight v) this = Inr (set_wallHeight v this)"
| "mutate (Set_tileHeight v) this = Inr (set_tileHeight v this)"
| "mutate (Set_wallDepth v) this = Inr (set_wallDepth v this)"
| "mutate (Set_wallColor v) this = Inr (set_wallColor v this)"
| "mutate (Set_floorColor v) this = Inr (set_floorColor v this)"
| "mutate (Set_wallTexture v) this = Inr (set_wallTexture v this)"
| "mutate (Set_floorTexture v) this = Inr (set_floorTexture v this)"
| "mutate (WallTexture_loaded t) this = Inr (loadWallTextures_then t this)"
| "mutate (FloorTexture_loaded t) this = Inr (loadFloorTextures_then t this)"

definition mutations :: "style_mutation list \<Rightarrow> Room \<Rightarrow> Room" where
  "mutations ms this = fold (\<lambda>m s. state_of (mutate m s)) ms this"

subsection \<open>Construction\<close>

text \<open>
  \<open>parseTileMap\<close> and \<open>getTileMapBounds\<close> are not among the sources.  The constructor
  takes the result of the first, and the second as a parameter.
\<close>

record ParsedTileMap =
  pm_largestDiff :: real
  pm_tilemap :: "ParsedTileType list list"
  pm_wallOffsets :: point
  pm_positionOffsets :: point
  pm_maskOffsets :: point

definition Room_constructor ::
  "(ParsedTileType list list \<Rightarrow> point \<Rightarrow> TileMapBounds) \<Rightarrow> ParsedTileMap \<Rightarrow> IRoomContext
     \<Rightarrow> Room outcome" where
  "Room_constructor getTileMapBounds parsed deps =
     updateTiles
       \<lparr>roomObjects = [],
        wallOffsets = pm_wallOffsets parsed,
        positionOffsets = pm_positionOffsets parsed,
        parsedTileMap = pm_tilemap parsed,
        visualization = [],
        tileColor = ''#989865'',
        dependencies = deps,
        walls = [], floorObjects = [], cursors = [], doorWall = None,
        tileMapBounds = getTileMapBounds (pm_tilemap parsed) (pm_wallOffsets parsed),
        wallTexture = None, floorTexture = None,
        wallColor = None, floorColor = None,
        currentWallTexture = None, currentFloorTexture = None,
        hideWalls = False, hideFloor = False,
        wallDepth = 8, wallHeight = 115, tileHeight = 8,
        maskOffsets = pm_maskOffsets parsed,
        largestDiff = pm_largestDiff parsed,
        wallStore = [], floorStore = [], cursorStore = [],
        hookLog = []\<rparr>"

subsection \<open>What the projection reads, and what a rebuild keeps\<close>

definition anchor :: "Room \<Rightarrow> TileMapBounds \<times> point \<times> point" where
  "anchor this = (tileMapBounds this, wallOffsets this, positionOffsets this)"

definition frame ::
  "Room \<Rightarrow> (TileMapBounds \<times> point \<times> point) \<times> ParsedTileType list list \<times> real \<times> bool \<times> bool" where
  "frame this =
     (anchor this, parsedTileMap this, largestDiff this, hideWalls this, hideFloor this)"

text \<open>The floor is hidden and neither a wall nor a floor object is active.\<close>

definition bare :: "Room \<Rightarrow> bool" where
  "bare s = (hideFloor s \<and> walls s = [] \<and> floorObjects s = [])"

subsection \<open>Well-formed rooms\<close>

text \<open>
  Every object of \<open>_floor\<close>, \<open>_walls\<close> and \<open>_cursors\<close> went through \<open>addRoomObject\<close>:
  it is in its store and has been attached.  The constructor establishes this
  (\<open>Room_constructor_total\<close> below).
\<close>

definition in_store :: "obj_ref \<Rightarrow> Room \<Rightarrow> bool" where
  "in_store ref this =
     (case ref of
        WallRef i \<Rightarrow> i < length (wallStore this)
      | FloorRef i \<Rightarrow> i < length (floorStore this)
      | CursorRef i \<Rightarrow> i < length (cursorStore this))"

definition attached_at :: "obj_ref \<Rightarrow> Room \<Rightarrow> bool" where
  "attached_at ref this = (in_store ref this \<and> has_been_attached (get_base ref this))"

definition active_refs :: "Room \<Rightarrow> obj_ref list" where
  "active_refs this =
     map FloorRef (floorObjects this) @ map WallRef (walls this) @ map CursorRef (cursors this)"

definition well_formed :: "Room \<Rightarrow> bool" where
  "well_formed this = list_all (\<lambda>ref. attached_at ref this) (active_refs this)"

subsection \<open>A room\<close>

definition example_deps :: IRoomContext where
  "example_deps =
     \<lparr>c_animationTicker = 0, c_furnitureLoader = 1, c_avatarLoader = 2, c_hitDetection = 3,
      c_configuration = 4\<rparr>"

definition example_map :: ParsedTileMap where
  "example_map =
     \<lparr>pm_largestDiff = 1,
      pm_tilemap = [[PHidden, PWall RowWall 0 None],
                    [PWall ColWall 0 None, PTile 0],
                    [PDoor 0, PStairs 0 1]],
      pm_wallOffsets = \<lparr>p_x = 1, p_y = 1\<rparr>,
      pm_positionOffsets = \<lparr>p_x = 1, p_y = 1\<rparr>,
      pm_maskOffsets = \<lparr>p_x = 0, p_y = 0\<rparr>\<rparr>"

definition example_room :: Room where
  "example_room =
     state_of (Room_constructor (\<lambda>m p. \<lparr>minX = 0, minY = 0, maxX = 0, maxY = 0\<rparr>)
       example_map example_deps)"

section \<open>BaseAvatar\<close>

subsection \<open>Data\<close>

text \<open>
  Modelled from the spec: \<open>LookOptions\<close> (\<open>util/createLookServer\<close>) is not among the
  sources.  It is the spec's \<open>LookDescription\<close>: look identifier, action set, item, effect
  and direction.  The action set is a JavaScript \<open>Set\<close>, which keeps its elements in
  insertion order: a list.
\<close>

record LookOptions =
  lo_look :: string
  lo_actions :: "string list"
  lo_direction :: int
  lo_item :: "string option"
  lo_effect :: "string option"

text \<open>
  Modelled from the spec: \<open>isSetEqual\<close> (\<open>util/isSetEqual\<close>) is not among the sources.
  By the spec the comparison of action sets is set equality, the order being irrelevant.
\<close>

definition isSetEqual :: "'a list \<Rightarrow> 'a list \<Rightarrow> bool" where
  "isSetEqual as bs = (set as = set bs)"

text \<open>
  The draw definition (\<open>util/getAvatarDrawDefinition\<close>) and the loader result
  (\<open>interfaces/IAvatarLoader\<close>), with the fields and methods that \<open>BaseAvatar\<close> uses.
\<close>

record AvatarAsset =
  a_fileId :: string
  a_x :: real
  a_y :: real
  a_mirror :: bool

datatype part_mode = Colored | JustImage

record AvatarDrawPart =
  dp_assets :: "AvatarAsset list"
  dp_color :: "string option"
  dp_mode :: part_mode

record AvatarDrawDefinition =
  dd_parts :: "AvatarDrawPart list"
  dd_offsetX :: real
  dd_offsetY :: real

record AvatarLoaderResult =
  getDrawDefinition :: "LookOptions \<Rightarrow> AvatarDrawDefinition"
  getTexture :: "string \<Rightarrow> texture option"

record BaseAvatarDependencies =
  d_hitDetection :: nat
  d_animationTicker :: nat
  d_avatarLoader :: nat

text \<open>
  A \<open>HitSprite\<close>.  The tint is \<open>0xffffff\<close> or \<open>parseInt(s, 16)\<close> for a string \<open>s\<close>, kept
  unevaluated.  Sprites are shared between \<open>_assets\<close>, \<open>_sprites\<close> and the container: they
  live in a store and are referred to by index.
\<close>

datatype tint = White | ParseInt16 string

record HitSprite =
  hs_hitDetection :: nat
  hs_hitTexture :: texture
  hs_x :: real
  hs_y :: real
  hs_visible :: bool
  hs_mirrored :: bool
  hs_ignore :: bool
  hs_tint :: tint

text \<open>The child \<open>PIXI.Container\<close> of the avatar: its children and its position.\<close>

record Container =
  ct_children :: "nat list"
  ct_x :: real
  ct_y :: real

text \<open>
  The fields of \<open>BaseAvatar\<close>.  \<open>_updateId\<close> counts up by one from zero and is a natural
  number.  \<open>_currentFrame\<close> is an integer.  Three fields stand for the world around the
  avatar: the sprite store, \<open>requests\<close>, the calls of \<open>getAvatarDrawDefinition\<close> made on
  the loader, each with the request id and the look that the continuation of its promise
  holds, in the order of the calls, and \<open>subscriptions\<close>, the number of callbacks
  subscribed with the animation ticker.
\<close>

record BaseAvatar =
  av_x :: real
  av_y :: real
  av_zIndex :: real
  av_container :: "Container option"
  avatarLoaderResult :: "AvatarLoaderResult option"
  avatarDrawDefinition :: "AvatarDrawDefinition option"
  lookOptions :: "LookOptions option"
  nextLookOptions :: "LookOptions option"
  currentFrame :: int
  assets :: "nat list"
  refreshFrame :: bool
  refreshLook :: bool
  sprites :: "string \<Rightarrow> nat option"
  updateId :: nat
  av_dependencies :: "BaseAvatarDependencies option"
  spriteStore :: "HitSprite list"
  requests :: "(nat \<times> LookOptions) list"
  subscriptions :: nat

subsection \<open>Methods\<close>

definition new_BaseAvatar :: "LookOptions \<Rightarrow> real \<Rightarrow> real \<Rightarrow> real \<Rightarrow> BaseAvatar" where
  "new_BaseAvatar look x y zIndex =
     \<lparr>av_x = x, av_y = y, av_zIndex = zIndex,
      av_container = None, avatarLoaderResult = None, avatarDrawDefinition = None,
      lookOptions = None, nextLookOptions = Some look,
      currentFrame = 0, assets = [], refreshFrame = False, refreshLook = False,
      sprites = (\<lambda>k. None), updateId = 0, av_dependencies = None,
      spriteStore = [], requests = [], subscriptions = 0\<rparr>"

definition av_mounted :: "BaseAvatar \<Rightarrow> bool" where
  "av_mounted this = (av_dependencies this \<noteq> None)"

definition get_dependencies :: "BaseAvatar \<Rightarrow> error + BaseAvatarDependencies" where
  "get_dependencies this =
     (case av_dependencies this of None \<Rightarrow> Inl InvalidDependencies | Some d \<Rightarrow> Inr d)"

definition get_lookOptions :: "BaseAvatar \<Rightarrow> error + LookOptions" where
  "get_lookOptions this =
     (case nextLookOptions this of
        Some l \<Rightarrow> Inr l
      | None \<Rightarrow> (case lookOptions this of None \<Rightarrow> Inl InvalidLookOptions | Some l \<Rightarrow> Inr l))"

definition updateLookOptions ::
  "LookOptions option \<Rightarrow> LookOptions \<Rightarrow> BaseAvatar \<Rightarrow> BaseAvatar" where
  "updateLookOptions oldLookOptions newLookOptions this =
     (case oldLookOptions of
        None \<Rightarrow> this\<lparr>nextLookOptions := Some newLookOptions, refreshLook := True\<rparr>
      | Some old \<Rightarrow>
          if \<not> isSetEqual (lo_actions old) (lo_actions newLookOptions) \<or>
             lo_look old \<noteq> lo_look newLookOptions \<or>
             lo_item old \<noteq> lo_item newLookOptions \<or>
             lo_effect old \<noteq> lo_effect newLookOptions \<or>
             lo_direction old \<noteq> lo_direction newLookOptions
          then this\<lparr>nextLookOptions := Some newLookOptions, refreshLook := True\<rparr>
          else this)"

definition set_lookOptions :: "LookOptions \<Rightarrow> BaseAvatar \<Rightarrow> BaseAvatar" where
  "set_lookOptions l this = updateLookOptions (lookOptions this) l this"

definition set_currentFrame :: "int \<Rightarrow> BaseAvatar \<Rightarrow> BaseAvatar" where
  "set_currentFrame v this =
     (if v = currentFrame this then this else this\<lparr>currentFrame := v, refreshFrame := True\<rparr>)"

definition updatePosition :: "AvatarDrawDefinition \<Rightarrow> BaseAvatar \<Rightarrow> BaseAvatar" where
  "updatePosition definition this =
     (case av_container this of
        None \<Rightarrow> this
      | Some c \<Rightarrow>
          this\<lparr>av_container := Some (c\<lparr>ct_x := dd_offsetX definition, ct_y := dd_offsetY definition\<rparr>)\<rparr>)"

text \<open>
  JavaScript's \<open>a % n\<close> on integers, for a length \<open>n\<close>: \<open>NaN\<close> (\<open>None\<close>) when \<open>n\<close> is
  zero, and otherwise the remainder with the sign of \<open>a\<close>.
\<close>

definition js_rem :: "int \<Rightarrow> nat \<Rightarrow> int option" where
  "js_rem a n =
     (if n = 0 then None
      else if 0 \<le> a then Some (a mod int n)
      else Some (- ((- a) mod int n)))"

text \<open>
  \<open>const frame = currentFrame % part.assets.length; const asset = part.assets[frame]\<close>:
  the asset, or \<open>undefined\<close> (\<open>None\<close>) when the index is \<open>NaN\<close> or negative.
\<close>

definition frame_asset :: "int \<Rightarrow> AvatarAsset list \<Rightarrow> AvatarAsset option" where
  "frame_asset frameIndex as =
     (case js_rem frameIndex (length as) of
        None \<Rightarrow> None
      | Some i \<Rightarrow> if 0 \<le> i \<and> nat i < length as then Some (as ! nat i) else None)"

text \<open>
  \<open>createAsset\<close> returns the new sprite, or \<open>undefined\<close> when the loader has no texture for
  the asset.
\<close>

definition createAsset ::
  "AvatarDrawPart \<Rightarrow> AvatarAsset \<Rightarrow> BaseAvatar \<Rightarrow> (error \<times> BaseAvatar) + (nat option \<times> BaseAvatar)" where
  "createAsset part asset this =
     (case avatarLoaderResult this of
        None \<Rightarrow> Inl (CantCreateAsset, this)
      | Some r \<Rightarrow>
          (case getTexture r (a_fileId asset) of
             None \<Rightarrow> Inr (None, this)
           | Some texture \<Rightarrow>
               (case get_dependencies this of
                  Inl e \<Rightarrow> Inl (e, this)
                | Inr d \<Rightarrow>
                    Inr (Some (length (spriteStore this)),
                         this\<lparr>spriteStore := spriteStore this @
                           [\<lparr>hs_hitDetection = d_hitDetection d, hs_hitTexture = texture,
                             hs_x = a_x asset, hs_y = a_y asset, hs_visible = True,
                             hs_mirrored = a_mirror asset, hs_ignore = False,
                             hs_tint = (case dp_color part of
                                          Some color \<Rightarrow>
                                            if dp_mode part = Colored
                                            then ParseInt16 (drop 1 color) else White
                                        | None \<Rightarrow> White)\<rparr>]\<rparr>))))"

text \<open>
  The end of the body of \<open>parts.forEach\<close>, for a sprite that exists: it is placed, shown,
  stored under the file id and added to the container (\<open>addChild\<close> moves a sprite that is
  a child already to the end).
\<close>

definition showSprite :: "AvatarAsset \<Rightarrow> nat \<Rightarrow> BaseAvatar \<Rightarrow> BaseAvatar" where
  "showSprite asset sprite this =
     this\<lparr>spriteStore := (spriteStore this)
             [sprite := (spriteStore this ! sprite)
                \<lparr>hs_x := a_x asset, hs_y := a_y asset, hs_visible := True,
                 hs_mirrored := a_mirror asset, hs_ignore := False\<rparr>],
          sprites := (sprites this)(a_fileId asset := Some sprite),
          av_container :=
            map_option (\<lambda>c. c\<lparr>ct_children := removeAll sprite (ct_children c) @ [sprite]\<rparr>)
              (av_container this)\<rparr>"

definition showPart :: "int \<Rightarrow> AvatarDrawPart \<Rightarrow> BaseAvatar \<Rightarrow> BaseAvatar outcome" where
  "showPart frameIndex part this =
     (case frame_asset frameIndex (dp_assets part) of
        None \<Rightarrow> Inl (TypeError, this)
      | Some asset \<Rightarrow>
          (case sprites this (a_fileId asset) of
             Some sprite \<Rightarrow> Inr (showSprite asset sprite this)
           | None \<Rightarrow>
               (case createAsset part asset this of
                  Inl e \<Rightarrow> Inl e
                | Inr (None, this) \<Rightarrow> Inr this
                | Inr (Some sprite, this) \<Rightarrow>
                    Inr (showSprite asset sprite (this\<lparr>assets := assets this @ [sprite]\<rparr>)))))"

definition updateSpritesWithAvatarDrawDefinition ::
  "AvatarDrawDefinition \<Rightarrow> int \<Rightarrow> BaseAvatar \<Rightarrow> BaseAvatar outcome" where
  "updateSpritesWithAvatarDrawDefinition drawDefinition frameIndex this =
     (if \<not> av_mounted this then Inr this
      else
        forEach (showPart frameIndex) (dd_parts drawDefinition)
          (this\<lparr>spriteStore :=
                  fold (\<lambda>i ss. ss[i := (ss ! i)\<lparr>hs_visible := False, hs_ignore := True\<rparr>])
                    (assets this) (spriteStore this),
                av_container := Some \<lparr>ct_children = [], ct_x = 0, ct_y = 0\<rparr>\<rparr>))"

definition updateSprites :: "BaseAvatar \<Rightarrow> BaseAvatar outcome" where
  "updateSprites this =
     (case avatarLoaderResult this of
        None \<Rightarrow> Inr this
      | Some r \<Rightarrow>
          (case lookOptions this of
             None \<Rightarrow> Inr this
           | Some l \<Rightarrow>
               let definition = getDrawDefinition r l in
               andThen
                 (updateSpritesWithAvatarDrawDefinition definition (currentFrame this)
                    (this\<lparr>avatarDrawDefinition := Some definition\<rparr>))
                 (\<lambda>this. Inr (updatePosition definition this))))"

text \<open>
  \<open>_reloadLook\<close> up to the call of the loader: the request is issued with the next id.
  \<open>reloadLook_then\<close> is the continuation \<open>.then((result) => ...)\<close> of the request with
  id \<open>requestId\<close> for the look \<open>look\<close>.
\<close>

definition reloadLook :: "BaseAvatar \<Rightarrow> BaseAvatar" where
  "reloadLook this =
     (if \<not> av_mounted this then this
      else case nextLookOptions this of
        None \<Rightarrow> this
      | Some look \<Rightarrow>
          let requestId = updateId this + 1 in
          this\<lparr>updateId := requestId, requests := requests this @ [(requestId, look)]\<rparr>)"

definition reloadLook_then ::
  "nat \<Rightarrow> LookOptions \<Rightarrow> AvatarLoaderResult \<Rightarrow> BaseAvatar \<Rightarrow> BaseAvatar outcome" where
  "reloadLook_then requestId look result this =
     (if requestId \<noteq> updateId this then Inr this
      else updateSprites
             (this\<lparr>avatarLoaderResult := Some result, lookOptions := Some look,
                   nextLookOptions := None\<rparr>))"

definition updateFrame :: "BaseAvatar \<Rightarrow> BaseAvatar outcome" where
  "updateFrame this =
     (case avatarDrawDefinition this of
        None \<Rightarrow> Inr this
      | Some definition \<Rightarrow>
          andThen (updateSpritesWithAvatarDrawDefinition definition (currentFrame this) this)
            (\<lambda>this. Inr (updatePosition definition this)))"

text \<open>The callback that \<open>_handleDependenciesSet\<close> subscribes with the animation ticker.\<close>

definition ticker_callback :: "BaseAvatar \<Rightarrow> BaseAvatar outcome" where
  "ticker_callback this =
     block [
       (\<lambda>this. if refreshLook this then Inr (reloadLook (this\<lparr>refreshLook := False\<rparr>))
               else Inr this),
       (\<lambda>this. if refreshFrame this then updateFrame (this\<lparr>refreshFrame := False\<rparr>)
               else Inr this)
     ] this"

definition handleDependenciesSet :: "BaseAvatar \<Rightarrow> BaseAvatar" where
  "handleDependenciesSet this =
     (let this = reloadLook this in this\<lparr>subscriptions := subscriptions this + 1\<rparr>)"

definition set_dependencies :: "BaseAvatarDependencies \<Rightarrow> BaseAvatar \<Rightarrow> BaseAvatar" where
  "set_dependencies v this = handleDependenciesSet (this\<lparr>av_dependencies := Some v\<rparr>)"

subsection \<open>Runs\<close>

text \<open>
  What happens to an avatar: its setters are called, the ticker runs the subscribed
  callback, and the promise of the \<open>k\<close>-th request resolves with a loader result, which
  runs its continuation.  A handler that throws leaves the avatar in the state of the
  throw.
\<close>

datatype avatar_event =
    SetDependencies BaseAvatarDependencies
  | SetLookOptions LookOptions
  | SetCurrentFrame int
  | Tick
  | Response nat AvatarLoaderResult

fun handle :: "avatar_event \<Rightarrow> BaseAvatar \<Rightarrow> BaseAvatar outcome" where
  "handle (SetDependencies v) this = Inr (set_dependencies v this)"
| "handle (SetLookOptions l) this = Inr (set_lookOptions l this)"
| "handle (SetCurrentFrame v) this = Inr (set_currentFrame v this)"
| "handle Tick this = (if subscriptions this = 0 then Inr this else ticker_callback this)"
| "handle (Response k result) this =
     (if k < length (requests this)
      then reloadLook_then (fst (requests this ! k)) (snd (requests this ! k)) result this
      else Inr this)"

definition run :: "avatar_event list \<Rightarrow> BaseAvatar \<Rightarrow> BaseAvatar" where
  "run es this = fold (\<lambda>e s. state_of (handle e s)) es this"

subsection \<open>What the sprite rebuild leaves alone\<close>

text \<open>
  \<open>control\<close> is the avatar without its sprite graph (container, sprites and cache);
  \<open>issue\<close> is the request counter with the requests issued; \<open>in_order\<close> says that the
  requests carry the ids 1, 2, ... up to \<open>_updateId\<close>, in the order of issue.
\<close>

definition control ::
  "BaseAvatar \<Rightarrow> (AvatarLoaderResult option \<times> AvatarDrawDefinition option \<times> LookOptions option \<times> LookOptions option) \<times>
     (bool \<times> bool \<times> int) \<times> (nat \<times> (nat \<times> LookOptions) list) \<times> BaseAvatarDependencies option \<times> nat" where
  "control this =
     ((avatarLoaderResult this, avatarDrawDefinition this, lookOptions this, nextLookOptions this),
      (refreshLook this, refreshFrame this, currentFrame this),
      (updateId this, requests this), av_dependencies this, subscriptions this)"

definition issue :: "BaseAvatar \<Rightarrow> nat \<times> (nat \<times> LookOptions) list" where
  "issue s = (updateId s, requests s)"

definition in_order :: "BaseAvatar \<Rightarrow> bool" where
  "in_order s = (map fst (requests s) = map Suc [0..<updateId s])"

text \<open>
  What it is for an avatar to show an asset: the sprite stored under the file id of the
  asset is a child of the container, visible, not ignored by hit detection, and placed and
  mirrored as the asset says.
\<close>

definition shows_asset :: "AvatarAsset \<Rightarrow> BaseAvatar \<Rightarrow> bool" where
  "shows_asset asset this =
     (case (sprites this (a_fileId asset), av_container this) of
        (Some sprite, Some c) \<Rightarrow>
          sprite < length (spriteStore this) \<and> sprite \<in> set (ct_children c) \<and>
          hs_visible (spriteStore this ! sprite) \<and> \<not> hs_ignore (spriteStore this ! sprite) \<and>
          hs_x (spriteStore this ! sprite) = a_x asset \<and>
          hs_y (spriteStore this ! sprite) = a_y asset \<and>
          hs_mirrored (spriteStore this ! sprite) = a_mirror asset
      | _ \<Rightarrow> False)"

subsection \<open>Looks and avatars for the runs below\<close>

text \<open>
  \<open>look_hd\<close> is the look of the spec's scenario.  \<open>two_requests\<close> is an avatar with two
  requests in flight; \<open>applied_avatar look\<close> has applied its first look;
  \<open>reloading_avatar\<close> has applied \<open>look_hd\<close> and requested \<open>look_turned\<close>.
\<close>

definition look_hd :: LookOptions where
  "look_hd = \<lparr>lo_look = ''hd-180-1'', lo_actions = [], lo_direction = 2, lo_item = None, lo_effect = None\<rparr>"

definition look_turned :: LookOptions where
  "look_turned = look_hd\<lparr>lo_direction := 4\<rparr>"

definition look_turned_again :: LookOptions where
  "look_turned_again = look_hd\<lparr>lo_direction := 6\<rparr>"

definition look_waving :: LookOptions where
  "look_waving = look_hd\<lparr>lo_actions := [''Move'', ''Wave'']\<rparr>"

definition look_waving_reordered :: LookOptions where
  "look_waving_reordered = look_hd\<lparr>lo_actions := [''Wave'', ''Move'']\<rparr>"

definition example_dependencies :: BaseAvatarDependencies where
  "example_dependencies = \<lparr>d_hitDetection = 0, d_animationTicker = 1, d_avatarLoader = 2\<rparr>"

definition example_definition :: "real \<Rightarrow> AvatarDrawDefinition" where
  "example_definition offsetY =
     \<lparr>dd_parts = [\<lparr>dp_assets = [\<lparr>a_fileId = ''h_std_hd_1_2_0'', a_x = 0, a_y = 0, a_mirror = False\<rparr>,
                                \<lparr>a_fileId = ''h_std_hd_1_2_1'', a_x = 1, a_y = 0, a_mirror = False\<rparr>],
                   dp_color = Some ''#ffcc00'', dp_mode = Colored\<rparr>],
      dd_offsetX = 0, dd_offsetY = offsetY\<rparr>"

definition example_result :: "real \<Rightarrow> AvatarLoaderResult" where
  "example_result offsetY =
     \<lparr>getDrawDefinition = (\<lambda>l. example_definition offsetY), getTexture = (\<lambda>f. Some 5)\<rparr>"

definition example_part :: AvatarDrawPart where
  "example_part = hd (dd_parts (example_definition 16))"

definition two_requests :: BaseAvatar where
  "two_requests =
     run [SetDependencies example_dependencies, SetLookOptions look_turned, Tick]
       (new_BaseAvatar look_hd 0 0 0)"

definition applied_avatar :: "LookOptions \<Rightarrow> BaseAvatar" where
  "applied_avatar look =
     run [SetDependencies example_dependencies, Response 0 (example_result 16)]
       (new_BaseAvatar look 0 0 0)"

definition reloading_avatar :: BaseAvatar where
  "reloading_avatar = run [SetLookOptions look_turned, Tick] (applied_avatar look_hd)"


section \<open>Properties of RoomObject\<close>

subsection \<open>Lifecycle lemmas\<close>

lemma has_been_attached_setParent:
  "setParent reg c (this, w) = Inr (this', w') \<Longrightarrow> has_been_attached this'"
  by (auto simp: setParent_def has_been_attached_def split: if_splits)

lemma has_been_attached_destroy:
  "has_been_attached this \<Longrightarrow> has_been_attached (fst (state_of (destroy rm d (this, w))))"
  by (auto simp: destroy_def has_been_attached_def state_of_def getRoomContext_def Let_def
      split: option.splits)

lemma not_attached_new: "\<not> has_been_attached new_RoomObject"
  by (simp add: has_been_attached_def new_RoomObject_def)

text \<open>
  C8.  \<open>setParent\<close> on an object that holds a context throws at once: nothing is stored and
  no hook runs.  On an object without a context it returns, the context is stored, the
  destroyed flag is reset, and \<open>registered()\<close> has run exactly once on the world.
\<close>

theorem setParent_attach_once:
  "(r_context this \<noteq> None \<longrightarrow>
      setParent registered c (this, w) = Inl (AlreadyProvided, (this, w))) \<and>
   (r_context this = None \<longrightarrow>
      setParent registered c (this, w) =
        Inr (\<lparr>r_context = Some c, isDestroyed = False\<rparr>, registered w))"
  by (simp add: setParent_def)

theorem setParent_attach_once_witness:
  "setParent log_registered (2::nat) (\<lparr>r_context = Some 1, isDestroyed = False\<rparr>, [])
     = Inl (AlreadyProvided, (\<lparr>r_context = Some 1, isDestroyed = False\<rparr>, [])) \<and>
   setParent log_registered (2::nat) (new_RoomObject, [])
     = Inr (\<lparr>r_context = Some 2, isDestroyed = False\<rparr>, [Call_registered])"
  using setParent_attach_once [of "\<lparr>r_context = Some 1, isDestroyed = False\<rparr>" log_registered "2::nat" "[]"]
    setParent_attach_once [of "new_RoomObject :: nat RoomObject" log_registered "2::nat" "[]"]
  by (simp add: new_RoomObject_def log_registered_def)





section \<open>Properties of Room\<close>

subsection \<open>Outcomes and loops\<close>

lemma state_of_simps [simp]: "state_of (Inr s) = s" "state_of (Inl (e, s)) = s"
  by (simp_all add: state_of_def)

lemma andThen_simps [simp]: "andThen (Inr s) g = g s" "andThen (Inl x) g = Inl x"
  by (simp_all add: andThen_def)

lemma andThen_stable:
  assumes "P (state_of m)" and "\<And>s. P s \<Longrightarrow> P (state_of (g s))"
  shows "P (state_of (andThen m g))"
proof (cases m)
  case (Inl x)
  with assms(1) show ?thesis by simp
next
  case (Inr s)
  with assms show ?thesis by simp
qed

lemma forEach_stable:
  assumes "\<And>a s. P s \<Longrightarrow> P (state_of (f a s))" and "P s"
  shows "P (state_of (forEach f xs s))"
  using assms(2)
proof (induction xs arbitrary: s)
  case Nil
  then show ?case by simp
next
  case (Cons a xs)
  show ?case
    unfolding forEach.simps
    by (rule andThen_stable) (use Cons assms(1) in auto)
qed

lemma block_stable:
  assumes "\<And>f s. f \<in> set fs \<Longrightarrow> P s \<Longrightarrow> P (state_of (f s))" and "P s"
  shows "P (state_of (block fs s))"
  using assms
proof (induction fs arbitrary: s)
  case Nil
  then show ?case by (simp add: block_def)
next
  case (Cons f fs)
  have "P (state_of (andThen (f s) (block fs)))"
    by (rule andThen_stable) (use Cons in auto)
  moreover have "block (f # fs) s = andThen (f s) (block fs)"
    by (simp add: block_def fun_eq_iff andThen_def split: sum.splits)
  ultimately show ?case by simp
qed

lemma set_base_fields [simp]:
  "frame (set_base ref b s) = frame s"
  "walls (set_base ref b s) = walls s"
  "floorObjects (set_base ref b s) = floorObjects s"
  "cursors (set_base ref b s) = cursors s"
  "roomObjects (set_base ref b s) = roomObjects s"
  "dependencies (set_base ref b s) = dependencies s"
  by (cases ref; simp add: set_base_def frame_def anchor_def)+

lemma frame_updates [simp]:
  "frame (s\<lparr>hookLog := a1\<rparr>) = frame s"
  "frame (s\<lparr>roomObjects := a2\<rparr>) = frame s"
  "frame (s\<lparr>wallStore := a3\<rparr>) = frame s"
  "frame (s\<lparr>floorStore := a4\<rparr>) = frame s"
  "frame (s\<lparr>cursorStore := a5\<rparr>) = frame s"
  "frame (s\<lparr>walls := a6\<rparr>) = frame s"
  "frame (s\<lparr>floorObjects := a7\<rparr>) = frame s"
  "frame (s\<lparr>cursors := a8\<rparr>) = frame s"
  "frame (s\<lparr>doorWall := a9\<rparr>) = frame s"
  "frame (s\<lparr>visualization := a10\<rparr>) = frame s"
  by (simp_all add: frame_def anchor_def)

lemma object_destroy_frame [simp]:
  "frame (state_of (object_destroy ref s)) = frame s"
  "walls (state_of (object_destroy ref s)) = walls s"
  "floorObjects (state_of (object_destroy ref s)) = floorObjects s"
  "cursors (state_of (object_destroy ref s)) = cursors s"
  by (simp_all add: object_destroy_def getRoomContext_def Let_def split: option.splits)

lemma object_setParent_frame [simp]:
  "frame (state_of (object_setParent ref c s)) = frame s"
  "walls (state_of (object_setParent ref c s)) = walls s"
  "floorObjects (state_of (object_setParent ref c s)) = floorObjects s"
  "cursors (state_of (object_setParent ref c s)) = cursors s"
  by (simp_all add: object_setParent_def setParent_def object_registered_def)

lemma addRoomObject_frame [simp]:
  "frame (state_of (addRoomObject ref s)) = frame s"
  "walls (state_of (addRoomObject ref s)) = walls s"
  "floorObjects (state_of (addRoomObject ref s)) = floorObjects s"
  "cursors (state_of (addRoomObject ref s)) = cursors s"
  unfolding addRoomObject_def
  by (rule andThen_stable; simp)+

lemma registerWall_frame [simp]: "frame (state_of (registerWall i s)) = frame s"
  by (simp add: registerWall_def)

lemma registerTile_frame [simp]: "frame (state_of (registerTile i s)) = frame s"
  by (simp add: registerTile_def)

lemma registerTileCursor_frame [simp]:
  "frame (state_of (registerTileCursor a b c d s)) = frame s"
  by (simp add: registerTileCursor_def new_TileCursor_def)

lemma resetTiles_frame [simp]: "frame (state_of (resetTiles s)) = frame s"
  unfolding resetTiles_def
  by (rule andThen_stable, rule forEach_stable; simp)

lemma frame_fields:
  "frame s = frame s' \<Longrightarrow> hideFloor s = hideFloor s' \<and> hideWalls s = hideWalls s' \<and>
     parsedTileMap s = parsedTileMap s' \<and> largestDiff s = largestDiff s' \<and> anchor s = anchor s'"
  by (simp add: frame_def)

lemma updateTile_frame [simp]: "frame (state_of (updateTile y x tile s)) = frame s"
proof -
  have door: "frame (state_of (doorTile y x tile s)) = frame s" for s
    unfolding doorTile_def
    by (cases tile; simp; rule block_stable [where P = "\<lambda>t. frame t = frame s"];
        auto simp: new_Floor_def new_Wall_def intro!: andThen_stable [where P = "\<lambda>t. frame t = frame s"])
  have plain: "frame (state_of (plainTile y x tile s)) = frame s" for s
    unfolding plainTile_def
    by (cases tile; simp; rule block_stable [where P = "\<lambda>t. frame t = frame s"];
        auto simp: new_Floor_def)
  have wall: "frame (state_of (wallTile y x tile s)) = frame s" for s
    unfolding wallTile_def
    by (cases tile; simp add: new_Wall_def split: option.splits)
  have corner: "frame (state_of (innerCornerTile y x tile s)) = frame s" for s
    unfolding innerCornerTile_def
    by (cases tile; simp; intro impI; rule block_stable [where P = "\<lambda>t. frame t = frame s"];
        auto simp: new_Wall_def)
  have stairs: "frame (state_of (stairsTile y x tile s)) = frame s" for s
    unfolding stairsTile_def
    by (cases tile; simp; rule block_stable [where P = "\<lambda>t. frame t = frame s"];
        auto simp: new_Floor_def)
  show ?thesis
    unfolding updateTile_def
    by (rule block_stable [where P = "\<lambda>t. frame t = frame s"])
       (auto simp: door plain wall corner stairs)
qed

lemma updateRow_frame [simp]: "frame (state_of (updateRow y row s)) = frame s"
  unfolding updateRow_def
  by (rule forEach_stable [where P = "\<lambda>t. frame t = frame s"]) simp_all

lemma updateTiles_frame [simp]: "frame (state_of (updateTiles s)) = frame s"
  unfolding updateTiles_def
  by (rule andThen_stable [where P = "\<lambda>t. frame t = frame s"], simp,
      rule forEach_stable [where P = "\<lambda>t. frame t = frame s"]) simp_all



text \<open>
  C2.  \<open>getPosition\<close> adds the offsets that the placement kind selects (the wall offsets
  for a plane, the position offsets for an object, none otherwise) and projects with
  \<open>base = 32\<close>, anchored at the stored tile map bounds.
\<close>

theorem getPosition_formula:
  "getPosition this roomX roomY roomZ kind =
     (let b = tileMapBounds this;
          base = 32;
          x = (case kind of Plane \<Rightarrow> roomX + p_x (wallOffsets this)
                 | Object \<Rightarrow> roomX + p_x (positionOffsets this)
                 | NoPlacement \<Rightarrow> roomX);
          y = (case kind of Plane \<Rightarrow> roomY + p_y (wallOffsets this)
                 | Object \<Rightarrow> roomY + p_y (positionOffsets this)
                 | NoPlacement \<Rightarrow> roomY)
      in \<lparr>p_x = - minX b + x * base - y * base,
          p_y = - minY b + x * (base / 2) + y * (base / 2) - roomZ * 32\<rparr>)"
  by (cases kind)
     (simp_all only: getPosition_def getBasePosition_def getTilePositionWithOffset_def
        getObjectPositionWithOffset_def Let_def placement.case point.select_convs)

subsection \<open>The anchor of the projection\<close>

lemma anchor_updates [simp]:
  "anchor (s\<lparr>hideWalls := b1\<rparr>) = anchor s"
  "anchor (s\<lparr>hideFloor := b2\<rparr>) = anchor s"
  "anchor (s\<lparr>wallHeight := b3\<rparr>) = anchor s"
  "anchor (s\<lparr>tileHeight := b4\<rparr>) = anchor s"
  "anchor (s\<lparr>wallDepth := b5\<rparr>) = anchor s"
  "anchor (s\<lparr>wallColor := b6\<rparr>) = anchor s"
  "anchor (s\<lparr>floorColor := b7\<rparr>) = anchor s"
  "anchor (s\<lparr>wallTexture := b8\<rparr>) = anchor s"
  "anchor (s\<lparr>floorTexture := b9\<rparr>) = anchor s"
  "anchor (s\<lparr>currentWallTexture := b10\<rparr>) = anchor s"
  "anchor (s\<lparr>currentFloorTexture := b11\<rparr>) = anchor s"
  "anchor (s\<lparr>wallStore := b12\<rparr>) = anchor s"
  "anchor (s\<lparr>floorStore := b13\<rparr>) = anchor s"
  "anchor (s\<lparr>visualization := b14\<rparr>) = anchor s"
  by (simp_all add: anchor_def)

lemma updateTiles_anchor [simp]: "anchor (state_of (updateTiles s)) = anchor s"
  using updateTiles_frame [of s] by (simp add: frame_def)

lemma in_place_anchor [simp]:
  "anchor (vis c s) = anchor s"
  "anchor (forEach_wall f s) = anchor s"
  "anchor (forEach_floor g s) = anchor s"
  by (simp_all add: vis_def forEach_wall_def forEach_floor_def)

lemma mutate_anchor: "anchor (state_of (mutate m s)) = anchor s"
  by (cases m)
     (simp_all add: set_hideWalls_def set_hideFloor_def set_wallHeight_def set_tileHeight_def
        set_wallDepth_def set_wallColor_def set_floorColor_def set_wallTexture_def
        set_floorTexture_def loadWallTextures_then_def loadFloorTextures_then_def
        updateWallHeight_def updateTileHeight_def updateWallDepth_def updateTextures_def)

lemma mutations_anchor: "anchor (mutations ms s) = anchor s"
  unfolding mutations_def
  by (induction ms arbitrary: s) (simp_all add: mutate_anchor)

lemma getPosition_anchor:
  "anchor s = anchor s' \<Longrightarrow> getPosition s roomX roomY roomZ kind = getPosition s' roomX roomY roomZ kind"
  by (cases kind)
     (simp_all add: anchor_def getPosition_def getBasePosition_def
        getTilePositionWithOffset_def getObjectPositionWithOffset_def Let_def)

text \<open>
  C3.  Whatever style mutations run between two calls (the nine setters, and the callbacks
  of the two texture setters), \<open>getPosition\<close> returns the same result for the same
  arguments: the tile map bounds are the ones the constructor computed, and no mutation
  writes them, nor the offsets.
\<close>

theorem getPosition_after_mutations:
  "getPosition (mutations ms this) roomX roomY roomZ kind = getPosition this roomX roomY roomZ kind \<and>
   tileMapBounds (mutations ms this) = tileMapBounds this \<and>
   tileMapBounds (state_of (Room_constructor getTileMapBounds parsed deps))
     = getTileMapBounds (pm_tilemap parsed) (pm_wallOffsets parsed)"
proof -
  have a: "anchor (mutations ms this) = anchor this"
    by (rule mutations_anchor)
  have "anchor (state_of (Room_constructor getTileMapBounds parsed deps))
        = (getTileMapBounds (pm_tilemap parsed) (pm_wallOffsets parsed),
           pm_wallOffsets parsed, pm_positionOffsets parsed)"
    by (simp add: Room_constructor_def) (simp add: anchor_def)
  with a getPosition_anchor [OF a] show ?thesis
    by (simp add: anchor_def)
qed

subsection \<open>A rebuild with the floor hidden\<close>

lemma bare_frame: "bare s \<Longrightarrow> frame s' = frame s \<Longrightarrow> walls s' = walls s \<Longrightarrow> floorObjects s' = floorObjects s \<Longrightarrow> bare s'"
  by (simp add: bare_def frame_def)

lemma bare_updates [simp]:
  "bare (s\<lparr>wallStore := a3\<rparr>) = bare s"
  "bare (s\<lparr>floorStore := a4\<rparr>) = bare s"
  "bare (s\<lparr>cursorStore := a5\<rparr>) = bare s"
  "bare (s\<lparr>cursors := a8\<rparr>) = bare s"
  "bare (s\<lparr>doorWall := a9\<rparr>) = bare s"
  by (simp_all add: bare_def)

lemma addRoomObject_bare: "bare s \<Longrightarrow> bare (state_of (addRoomObject ref s))"
  by (rule bare_frame) simp_all

lemma registerWall_bare: "bare s \<Longrightarrow> bare (state_of (registerWall i s))"
  by (simp add: registerWall_def bare_def)

lemma registerTile_bare: "bare s \<Longrightarrow> bare (state_of (registerTile i s))"
  by (simp add: registerTile_def bare_def)

lemma registerTileCursor_bare: "bare s \<Longrightarrow> bare (state_of (registerTileCursor a b c d s))"
  by (simp add: registerTileCursor_def new_TileCursor_def addRoomObject_bare)

lemma updateTile_bare: "bare s \<Longrightarrow> bare (state_of (updateTile y x tile s))"
proof -
  have door: "bare s \<Longrightarrow> bare (state_of (doorTile y x tile s))" for s
    unfolding doorTile_def
    by (cases tile; simp; rule block_stable [where P = bare];
        auto simp: new_Floor_def new_Wall_def registerTile_bare registerWall_bare
          registerTileCursor_bare intro!: andThen_stable [where P = bare])
  have plain: "bare s \<Longrightarrow> bare (state_of (plainTile y x tile s))" for s
    unfolding plainTile_def
    by (cases tile; simp; rule block_stable [where P = bare];
        auto simp: new_Floor_def registerTile_bare registerTileCursor_bare)
  have wall: "bare s \<Longrightarrow> bare (state_of (wallTile y x tile s))" for s
    unfolding wallTile_def
    by (cases tile; simp add: new_Wall_def registerWall_bare split: option.splits)
  have corner: "bare s \<Longrightarrow> bare (state_of (innerCornerTile y x tile s))" for s
    unfolding innerCornerTile_def
    by (cases tile; simp; intro impI; rule block_stable [where P = bare];
        auto simp: new_Wall_def registerWall_bare)
  have stairs: "bare s \<Longrightarrow> bare (state_of (stairsTile y x tile s))" for s
    unfolding stairsTile_def
    by (cases tile; simp; rule block_stable [where P = bare];
        auto simp: new_Floor_def registerTile_bare registerTileCursor_bare)
  assume "bare s"
  then show ?thesis
    unfolding updateTile_def
    by (intro block_stable [where P = bare]) (auto simp: door plain wall corner stairs)
qed

lemma updateRows_bare:
  "bare s \<Longrightarrow> bare (state_of (forEach (\<lambda>yr. updateRow (fst yr) (snd yr)) rows s))"
  by (rule forEach_stable [where P = bare], unfold updateRow_def,
      rule forEach_stable [where P = bare]) (simp_all add: updateTile_bare)

lemma resetTiles_returns:
  "resetTiles s = Inr s' \<Longrightarrow> frame s' = frame s \<and> walls s' = [] \<and> floorObjects s' = []"
  using resetTiles_frame [of s]
  by (auto simp: resetTiles_def andThen_def split: sum.splits)

subsection \<open>Wall height\<close>

lemma fold_update_length [simp]:
  "length (fold (\<lambda>i ws. ws[i := f (ws ! i)]) js ws) = length ws"
  by (induction js arbitrary: ws) simp_all

lemma fold_update_nth:
  assumes "\<And>a. f (f a) = f a" and "j < length ws"
  shows "fold (\<lambda>i ws. ws[i := f (ws ! i)]) js ws ! j = (if j \<in> set js then f (ws ! j) else ws ! j)"
  using assms(2)
proof (induction js arbitrary: ws)
  case Nil
  then show ?case by simp
next
  case (Cons i js)
  then show ?case
    by (cases "i = j") (simp_all add: assms(1))
qed

text \<open>
  C7.  The \<open>wallHeight\<close> setter keeps the lists of active walls, floor objects and
  cursors, the door wall, the registered objects, the floor and cursor objects, the parsed
  tile map and the bounds.  No wall object is created or removed; every active wall is the
  object it was with its height set to \<open>wallHeightWithZ\<close> (the new value plus 32 times
  the largest height difference), and every other wall object is untouched.
\<close>

theorem set_wallHeight_in_place:
  "walls (set_wallHeight v this) = walls this \<and>
   floorObjects (set_wallHeight v this) = floorObjects this \<and>
   cursors (set_wallHeight v this) = cursors this \<and>
   doorWall (set_wallHeight v this) = doorWall this \<and>
   roomObjects (set_wallHeight v this) = roomObjects this \<and>
   floorStore (set_wallHeight v this) = floorStore this \<and>
   cursorStore (set_wallHeight v this) = cursorStore this \<and>
   parsedTileMap (set_wallHeight v this) = parsedTileMap this \<and>
   tileMapBounds (set_wallHeight v this) = tileMapBounds this \<and>
   length (wallStore (set_wallHeight v this)) = length (wallStore this) \<and>
   (\<forall>i < length (wallStore this).
      wallStore (set_wallHeight v this) ! i =
        (if i \<in> set (walls this)
         then (wallStore this ! i)\<lparr>w_wallHeight := v + largestDiff this * 32\<rparr>
         else wallStore this ! i))"
  by (simp add: set_wallHeight_def updateWallHeight_def forEach_wall_def vis_def
      wallHeightWithZ_def fold_update_nth)

subsection \<open>Rebuilds and mutations return\<close>

lemma returns_simps [simp]: "returns (Inr s)" "\<not> returns (Inl x)"
  by (simp_all add: returns_def)

lemma andThen_total:
  assumes "returns m \<and> I (state_of m)"
    and "\<And>s. I s \<Longrightarrow> returns (g s) \<and> J (state_of (g s))"
  shows "returns (andThen m g) \<and> J (state_of (andThen m g))"
  using assms by (cases m) auto

lemma forEach_total:
  assumes "\<And>a s. a \<in> set xs \<Longrightarrow> I s \<Longrightarrow> returns (f a s) \<and> I (state_of (f a s))" and "I s"
  shows "returns (forEach f xs s) \<and> I (state_of (forEach f xs s))"
  using assms
proof (induction xs arbitrary: s)
  case Nil
  then show ?case by simp
next
  case (Cons a xs)
  show ?case
    unfolding forEach.simps
    by (rule andThen_total [where I = I]) (use Cons in auto)
qed

lemma block_total:
  assumes "\<And>f s. f \<in> set fs \<Longrightarrow> I s \<Longrightarrow> returns (f s) \<and> I (state_of (f s))" and "I s"
  shows "returns (block fs s) \<and> I (state_of (block fs s))"
  unfolding block_def
  by (rule forEach_total [where I = I]) (use assms in auto)

lemma in_store_set_base [simp]: "in_store r' (set_base r b s) = in_store r' s"
  by (cases r; cases r'; simp add: in_store_def set_base_def)

lemma get_base_set_base:
  "in_store r' s \<Longrightarrow> get_base r' (set_base r b s) = (if r' = r then b else get_base r' s)"
  by (cases r; cases r'; simp add: in_store_def set_base_def get_base_def nth_list_update)

lemma in_store_updates [simp]:
  "in_store r (s\<lparr>roomObjects := a1\<rparr>) = in_store r s"
  "in_store r (s\<lparr>hookLog := a2\<rparr>) = in_store r s"
  "in_store r (s\<lparr>walls := a3\<rparr>) = in_store r s"
  "in_store r (s\<lparr>floorObjects := a4\<rparr>) = in_store r s"
  "in_store r (s\<lparr>cursors := a5\<rparr>) = in_store r s"
  "in_store r (s\<lparr>doorWall := a6\<rparr>) = in_store r s"
  by (cases r; simp add: in_store_def)+

lemma get_base_updates [simp]:
  "get_base r (s\<lparr>roomObjects := a1\<rparr>) = get_base r s"
  "get_base r (s\<lparr>hookLog := a2\<rparr>) = get_base r s"
  "get_base r (s\<lparr>walls := a3\<rparr>) = get_base r s"
  "get_base r (s\<lparr>floorObjects := a4\<rparr>) = get_base r s"
  "get_base r (s\<lparr>cursors := a5\<rparr>) = get_base r s"
  "get_base r (s\<lparr>doorWall := a6\<rparr>) = get_base r s"
  by (cases r; simp add: get_base_def)+

lemma attached_at_updates [simp]:
  "attached_at r (s\<lparr>roomObjects := a1\<rparr>) = attached_at r s"
  "attached_at r (s\<lparr>hookLog := a2\<rparr>) = attached_at r s"
  "attached_at r (s\<lparr>walls := a3\<rparr>) = attached_at r s"
  "attached_at r (s\<lparr>floorObjects := a4\<rparr>) = attached_at r s"
  "attached_at r (s\<lparr>cursors := a5\<rparr>) = attached_at r s"
  "attached_at r (s\<lparr>doorWall := a6\<rparr>) = attached_at r s"
  by (simp_all add: attached_at_def)

lemma object_destroy_throws:
  "\<not> isDestroyed (get_base r s) \<Longrightarrow> \<not> returns (object_destroy r s)"
  by (simp add: object_destroy_def getRoomContext_def Let_def split: option.splits)

lemma active_refs_updates [simp]:
  "active_refs (set_base r b s) = active_refs s"
  "active_refs (s\<lparr>roomObjects := a1\<rparr>) = active_refs s"
  "active_refs (s\<lparr>hookLog := a2\<rparr>) = active_refs s"
  "active_refs (s\<lparr>doorWall := a3\<rparr>) = active_refs s"
  "active_refs (s\<lparr>wallStore := a4\<rparr>) = active_refs s"
  "active_refs (s\<lparr>floorStore := a5\<rparr>) = active_refs s"
  "active_refs (s\<lparr>cursorStore := a6\<rparr>) = active_refs s"
  "active_refs (s\<lparr>visualization := a7\<rparr>) = active_refs s"
  by (simp_all add: active_refs_def)

lemma attached_at_new:
  "attached_at r s \<Longrightarrow> attached_at r (s\<lparr>wallStore := wallStore s @ [W]\<rparr>)"
  "attached_at r s \<Longrightarrow> attached_at r (s\<lparr>floorStore := floorStore s @ [F]\<rparr>)"
  "attached_at r s \<Longrightarrow> attached_at r (s\<lparr>cursorStore := cursorStore s @ [C]\<rparr>)"
  by (cases r; simp add: attached_at_def in_store_def get_base_def nth_append)+

lemma well_formed_new:
  "well_formed s \<Longrightarrow> well_formed (s\<lparr>wallStore := wallStore s @ [W]\<rparr>)"
  "well_formed s \<Longrightarrow> well_formed (s\<lparr>floorStore := floorStore s @ [F]\<rparr>)"
  "well_formed s \<Longrightarrow> well_formed (s\<lparr>cursorStore := cursorStore s @ [C]\<rparr>)"
  by (simp_all add: well_formed_def list_all_iff attached_at_new)

lemma addRoomObject_total:
  assumes "list_all (\<lambda>r. r = ref \<or> attached_at r s) (active_refs s)"
    and "in_store ref s" and "r_context (get_base ref s) = None"
  shows "returns (addRoomObject ref s) \<and> well_formed (state_of (addRoomObject ref s))"
proof -
  let ?b = "(get_base ref s)\<lparr>isDestroyed := False, r_context := Some (dependencies s)\<rparr>"
  let ?t = "set_base ref ?b (object_registered ref s)"
  have eq: "addRoomObject ref s = Inr (?t\<lparr>roomObjects := roomObjects ?t @ [ref]\<rparr>)"
    using assms(3) by (simp add: addRoomObject_def object_setParent_def setParent_def)
  have "attached_at r ?t" if "r \<in> set (active_refs s)" for r
  proof (cases "r = ref")
    case True
    with assms(2) show ?thesis
      by (simp add: attached_at_def object_registered_def get_base_set_base
          has_been_attached_def)
  next
    case False
    with that assms(1) have "attached_at r s" by (auto simp: list_all_iff)
    with False show ?thesis
      by (simp add: attached_at_def object_registered_def get_base_set_base)
  qed
  then show ?thesis
    by (simp add: eq well_formed_def list_all_iff object_registered_def)
qed

lemma register_new_wall_total:
  assumes "well_formed s" and "w_base W = new_RoomObject"
  shows "returns (registerWall (length (wallStore s)) (s\<lparr>wallStore := wallStore s @ [W]\<rparr>)) \<and>
         well_formed (state_of (registerWall (length (wallStore s)) (s\<lparr>wallStore := wallStore s @ [W]\<rparr>)))"
proof (cases "hideWalls s \<or> hideFloor s")
  case True
  with assms(1) show ?thesis
    by (auto simp: registerWall_def well_formed_new)
next
  case False
  let ?s2 = "s\<lparr>wallStore := wallStore s @ [W], walls := walls s @ [length (wallStore s)]\<rparr>"
  have "returns (addRoomObject (WallRef (length (wallStore s))) ?s2) \<and>
        well_formed (state_of (addRoomObject (WallRef (length (wallStore s))) ?s2))"
  proof (rule addRoomObject_total)
    from well_formed_new(1) [OF assms(1), of W]
    show "list_all (\<lambda>r. r = WallRef (length (wallStore s)) \<or> attached_at r ?s2) (active_refs ?s2)"
      by (auto simp: well_formed_def list_all_iff active_refs_def)
    show "in_store (WallRef (length (wallStore s))) ?s2" by (simp add: in_store_def)
    show "r_context (get_base (WallRef (length (wallStore s))) ?s2) = None"
      by (simp add: get_base_def assms(2) new_RoomObject_def)
  qed
  with False show ?thesis by (simp add: registerWall_def)
qed

lemma register_new_floor_total:
  assumes "well_formed s" and "f_base F = new_RoomObject"
  shows "returns (registerTile (length (floorStore s)) (s\<lparr>floorStore := floorStore s @ [F]\<rparr>)) \<and>
         well_formed (state_of (registerTile (length (floorStore s)) (s\<lparr>floorStore := floorStore s @ [F]\<rparr>)))"
proof (cases "hideFloor s")
  case True
  with assms(1) show ?thesis
    by (auto simp: registerTile_def well_formed_new)
next
  case False
  let ?s2 = "s\<lparr>floorStore := floorStore s @ [F], floorObjects := floorObjects s @ [length (floorStore s)]\<rparr>"
  have "returns (addRoomObject (FloorRef (length (floorStore s))) ?s2) \<and>
        well_formed (state_of (addRoomObject (FloorRef (length (floorStore s))) ?s2))"
  proof (rule addRoomObject_total)
    from well_formed_new(2) [OF assms(1), of F]
    show "list_all (\<lambda>r. r = FloorRef (length (floorStore s)) \<or> attached_at r ?s2) (active_refs ?s2)"
      by (auto simp: well_formed_def list_all_iff active_refs_def)
    show "in_store (FloorRef (length (floorStore s))) ?s2" by (simp add: in_store_def)
    show "r_context (get_base (FloorRef (length (floorStore s))) ?s2) = None"
      by (simp add: get_base_def assms(2) new_RoomObject_def)
  qed
  with False show ?thesis by (simp add: registerTile_def)
qed

lemma registerTileCursor_total:
  assumes "well_formed s"
  shows "returns (registerTileCursor a b c d s) \<and>
         well_formed (state_of (registerTileCursor a b c d s))"
proof -
  let ?C = "\<lparr>tc_base = new_RoomObject, tc_roomX = a, tc_roomY = b, tc_roomZ = c, tc_door = d\<rparr>"
  let ?s2 = "s\<lparr>cursorStore := cursorStore s @ [?C], cursors := cursors s @ [length (cursorStore s)]\<rparr>"
  have "returns (addRoomObject (CursorRef (length (cursorStore s))) ?s2) \<and>
        well_formed (state_of (addRoomObject (CursorRef (length (cursorStore s))) ?s2))"
  proof (rule addRoomObject_total)
    from well_formed_new(3) [OF assms(1), of ?C]
    show "list_all (\<lambda>r. r = CursorRef (length (cursorStore s)) \<or> attached_at r ?s2) (active_refs ?s2)"
      by (auto simp: well_formed_def list_all_iff active_refs_def)
    show "in_store (CursorRef (length (cursorStore s))) ?s2" by (simp add: in_store_def)
    show "r_context (get_base (CursorRef (length (cursorStore s))) ?s2) = None"
      by (simp add: get_base_def new_RoomObject_def)
  qed
  then show ?thesis by (simp add: registerTileCursor_def new_TileCursor_def)
qed


lemma well_formed_doorWall [simp]: "well_formed (s\<lparr>doorWall := d\<rparr>) = well_formed s"
  by (simp add: well_formed_def)

lemma updateTile_total:
  assumes "well_formed s"
  shows "returns (updateTile y x tile s) \<and> well_formed (state_of (updateTile y x tile s))"
proof -
  have door: "returns (doorTile y x tile s) \<and> well_formed (state_of (doorTile y x tile s))"
    if "well_formed s" for s
    unfolding doorTile_def
    by (cases tile; simp add: that; rule block_total [where I = well_formed];
        auto simp: that new_Floor_def new_Wall_def register_new_floor_total
          registerTileCursor_total
          intro!: andThen_total [where I = well_formed and J = well_formed]
            register_new_wall_total)
  have plain: "returns (plainTile y x tile s) \<and> well_formed (state_of (plainTile y x tile s))"
    if "well_formed s" for s
    unfolding plainTile_def
    by (cases tile; simp add: that; rule block_total [where I = well_formed];
        auto simp: that new_Floor_def register_new_floor_total registerTileCursor_total)
  have wall: "returns (wallTile y x tile s) \<and> well_formed (state_of (wallTile y x tile s))"
    if "well_formed s" for s
    unfolding wallTile_def
    by (cases tile; simp add: that new_Wall_def register_new_wall_total split: option.splits)
  have corner: "returns (innerCornerTile y x tile s) \<and>
      well_formed (state_of (innerCornerTile y x tile s))"
    if "well_formed s" for s
    unfolding innerCornerTile_def
    by (cases tile; simp add: that; intro impI; rule block_total [where I = well_formed];
        auto simp: that new_Wall_def register_new_wall_total)
  have stairs: "returns (stairsTile y x tile s) \<and> well_formed (state_of (stairsTile y x tile s))"
    if "well_formed s" for s
    unfolding stairsTile_def
    by (cases tile; simp add: that; rule block_total [where I = well_formed];
        auto simp: that new_Floor_def register_new_floor_total registerTileCursor_total)
  show ?thesis
    unfolding updateTile_def
    by (rule block_total [where I = well_formed])
       (use assms in \<open>auto simp: door plain wall corner stairs\<close>)
qed

lemma updateRows_total:
  assumes "well_formed s"
  shows "returns (forEach (\<lambda>yr. updateRow (fst yr) (snd yr)) rows s) \<and>
         well_formed (state_of (forEach (\<lambda>yr. updateRow (fst yr) (snd yr)) rows s))"
  by (rule forEach_total [where I = well_formed], unfold updateRow_def,
      rule forEach_total [where I = well_formed])
     (use assms in \<open>simp_all add: updateTile_total\<close>)

lemma Room_constructor_total:
  "returns (Room_constructor gtb parsed deps) \<and>
   well_formed (state_of (Room_constructor gtb parsed deps))"
  unfolding Room_constructor_def updateTiles_def resetTiles_def
  by (simp, rule updateRows_total) (simp add: well_formed_def active_refs_def)

subsection \<open>Runs on a room\<close>

lemmas room_defs = example_room_def example_map_def example_deps_def Room_constructor_def
  updateTiles_def resetTiles_def updateRow_def updateTile_def doorTile_def plainTile_def
  wallTile_def innerCornerTile_def stairsTile_def block_def registerWall_def registerTile_def
  registerTileCursor_def addRoomObject_def object_setParent_def object_destroy_def
  setParent_def getRoomContext_def new_Wall_def new_Floor_def new_TileCursor_def
  get_base_def set_base_def object_registered_def new_RoomObject_def
  getWallDirection_def orElse_def
  wallHeightWithZ_def enumerate_eq_zip

lemma example_room_walls:
  "walls example_room = [0, 1, 2]"
  "length (wallStore example_room) = 3"
  "largestDiff example_room = 1"
  "map w_wallHeight (wallStore example_room) = [147, 147, 147]"
  by (simp_all add: room_defs)

theorem set_wallHeight_in_place_witness:
  "0 < length (wallStore example_room) \<and> 0 \<in> set (walls example_room) \<and>
   walls (set_wallHeight 150 example_room) = [0, 1, 2] \<and>
   length (wallStore (set_wallHeight 150 example_room)) = 3 \<and>
   w_wallHeight (wallStore example_room ! 0) = 147 \<and>
   w_wallHeight (wallStore (set_wallHeight 150 example_room) ! 0) = 182"
proof -
  have len: "0 < length (wallStore example_room)" and mem: "0 \<in> set (walls example_room)"
    by (simp_all add: example_room_walls)
  have old: "w_wallHeight (wallStore example_room ! 0) = 147"
    using example_room_walls(4) len by (metis nth_map nth_Cons_0)
  from set_wallHeight_in_place [of 150 example_room]
  have w: "walls (set_wallHeight 150 example_room) = walls example_room"
    and l: "length (wallStore (set_wallHeight 150 example_room)) = length (wallStore example_room)"
    and a: "\<forall>i < length (wallStore example_room).
      wallStore (set_wallHeight 150 example_room) ! i =
        (if i \<in> set (walls example_room)
         then (wallStore example_room ! i)\<lparr>w_wallHeight := 150 + largestDiff example_room * 32\<rparr>
         else wallStore example_room ! i)"
    by blast+
  from a len mem
  have "wallStore (set_wallHeight 150 example_room) ! 0 =
          (wallStore example_room ! 0)\<lparr>w_wallHeight := 150 + largestDiff example_room * 32\<rparr>"
    by simp
  then have "w_wallHeight (wallStore (set_wallHeight 150 example_room) ! 0) = 182"
    by (simp add: example_room_walls)
  with len mem old w l show ?thesis
    by (simp add: example_room_walls)
qed

lemma registerWall_skipped:
  "hideWalls this \<or> hideFloor this \<Longrightarrow> registerWall wall this = Inr this"
  by (auto simp: registerWall_def)

lemma rebuild_bare:
  assumes "hideFloor s" and "returns (updateTiles s)"
  shows "walls (state_of (updateTiles s)) = [] \<and> floorObjects (state_of (updateTiles s)) = []"
proof -
  from assms(2) obtain s1 where s1: "resetTiles s = Inr s1"
    by (cases "resetTiles s") (auto simp: updateTiles_def)
  from resetTiles_returns [OF s1] assms(1) have "bare s1"
    by (simp add: bare_def frame_def)
  then have "bare (state_of (updateTiles s))"
    by (simp add: updateTiles_def s1 updateRows_bare)
  then show ?thesis by (simp add: bare_def)
qed

lemma example_room_objects:
  "floorObjects example_room = [0, 1, 2]"
  "cursors example_room = [0, 1, 2, 3]"
  "\<not> hideWalls example_room"
  "\<not> hideFloor example_room"
  by (simp_all add: room_defs)

text \<open>
  C9.  The room built from \<open>example_map\<close> has three active walls and three active floor
  objects, and \<open>hideWalls\<close> is false.  Setting \<open>hideFloor = true\<close> on it stores the flag
  and starts the rebuild, and the first \<open>destroy()\<close> of \<open>resetTiles\<close> throws a
  \<open>TypeError\<close>: the setter does not return, and the walls and the floor objects are
  still the active ones.
\<close>

theorem hideFloor_rebuild_throws:
  "walls example_room = [0, 1, 2] \<and> floorObjects example_room = [0, 1, 2] \<and>
   \<not> hideWalls example_room \<and>
   set_hideFloor True example_room
     = Inl (TypeError, state_of (set_hideFloor True example_room)) \<and>
   hideFloor (state_of (set_hideFloor True example_room)) \<and>
   walls (state_of (set_hideFloor True example_room)) = [0, 1, 2] \<and>
   floorObjects (state_of (set_hideFloor True example_room)) = [0, 1, 2]"
  by (simp add: example_room_walls example_room_objects)
     (simp add: room_defs set_hideFloor_def Let_def)

section \<open>Properties of BaseAvatar\<close>

lemma control_updates [simp]:
  "control (s\<lparr>spriteStore := a1\<rparr>) = control s"
  "control (s\<lparr>sprites := a2\<rparr>) = control s"
  "control (s\<lparr>av_container := a3\<rparr>) = control s"
  "control (s\<lparr>assets := a4\<rparr>) = control s"
  by (simp_all add: control_def)

lemma showPart_control: "control (state_of (showPart f part s)) = control s"
  by (simp add: showPart_def showSprite_def createAsset_def get_dependencies_def
      split: option.splits sum.splits prod.splits)

lemma updatePosition_control [simp]: "control (updatePosition d s) = control s"
  by (simp add: updatePosition_def split: option.splits)

lemma rebuild_control [simp]:
  "control (state_of (updateSpritesWithAvatarDrawDefinition d f s)) = control s"
proof (cases "av_mounted s")
  case True
  let ?s1 = "s\<lparr>spriteStore :=
                  fold (\<lambda>i ss. ss[i := (ss ! i)\<lparr>hs_visible := False, hs_ignore := True\<rparr>])
                    (assets s) (spriteStore s),
                av_container := Some \<lparr>ct_children = [], ct_x = 0, ct_y = 0\<rparr>\<rparr>"
  have "control (state_of (forEach (showPart f) (dd_parts d) ?s1)) = control s"
    by (rule forEach_stable [where P = "\<lambda>t. control t = control s"])
       (simp_all add: showPart_control)
  with True show ?thesis by (simp add: updateSpritesWithAvatarDrawDefinition_def)
qed (simp add: updateSpritesWithAvatarDrawDefinition_def)

lemma updateFrame_control [simp]: "control (state_of (updateFrame s)) = control s"
  unfolding updateFrame_def
  by (cases "avatarDrawDefinition s"; simp;
      rule andThen_stable [where P = "\<lambda>t. control t = control s"]; simp)

lemma updateSprites_control:
  "control (state_of (updateSprites s)) =
     (case (avatarLoaderResult s, lookOptions s) of
        (Some r, Some l) \<Rightarrow> control (s\<lparr>avatarDrawDefinition := Some (getDrawDefinition r l)\<rparr>)
      | _ \<Rightarrow> control s)"
proof (cases "avatarLoaderResult s")
  case None
  then show ?thesis by (simp add: updateSprites_def)
next
  case (Some r)
  show ?thesis
  proof (cases "lookOptions s")
    case None
    with Some show ?thesis by (simp add: updateSprites_def)
  next
    case (Some l)
    let ?s1 = "s\<lparr>avatarDrawDefinition := Some (getDrawDefinition r l)\<rparr>"
    have "control (state_of (andThen
             (updateSpritesWithAvatarDrawDefinition (getDrawDefinition r l) (currentFrame s) ?s1)
             (\<lambda>this. Inr (updatePosition (getDrawDefinition r l) this)))) = control ?s1"
      by (rule andThen_stable [where P = "\<lambda>t. control t = control ?s1"]) simp_all
    with Some \<open>avatarLoaderResult s = Some r\<close> show ?thesis
      by (simp add: updateSprites_def Let_def)
  qed
qed

lemma reloadLook_then_stale:
  "requestId \<noteq> updateId s \<Longrightarrow> reloadLook_then requestId look result s = Inr s"
  by (simp add: reloadLook_then_def)

lemma reloadLook_then_control:
  "control (state_of (reloadLook_then (updateId s) look result s)) =
     control (s\<lparr>avatarLoaderResult := Some result, lookOptions := Some look,
                nextLookOptions := None,
                avatarDrawDefinition := Some (getDrawDefinition result look)\<rparr>)"
  by (simp add: reloadLook_then_def updateSprites_control)

lemma control_issue: "control s = control t \<Longrightarrow> issue s = issue t"
  by (simp add: control_def issue_def)

lemma in_order_issue: "issue s = issue t \<Longrightarrow> in_order s = in_order t"
  by (simp add: issue_def in_order_def)

lemma reloadLook_in_order: "in_order s \<Longrightarrow> in_order (reloadLook s)"
  by (simp add: reloadLook_def in_order_def Let_def split: option.splits)

lemma in_order_updates [simp]:
  "in_order (s\<lparr>refreshLook := a1\<rparr>) = in_order s"
  "in_order (s\<lparr>refreshFrame := a2\<rparr>) = in_order s"
  "in_order (s\<lparr>av_dependencies := a3\<rparr>) = in_order s"
  "in_order (s\<lparr>subscriptions := a4\<rparr>) = in_order s"
  "in_order (s\<lparr>nextLookOptions := a5\<rparr>) = in_order s"
  "in_order (s\<lparr>currentFrame := a6\<rparr>) = in_order s"
  by (simp_all add: in_order_def)

lemma handle_in_order: "in_order s \<Longrightarrow> in_order (state_of (handle e s))"
proof (cases e)
  case (SetDependencies v)
  then show "in_order s \<Longrightarrow> ?thesis"
    by (simp add: set_dependencies_def handleDependenciesSet_def Let_def reloadLook_in_order)
next
  case (SetLookOptions l)
  then show "in_order s \<Longrightarrow> ?thesis"
    by (simp add: set_lookOptions_def updateLookOptions_def split: option.splits)
next
  case (SetCurrentFrame v)
  then show "in_order s \<Longrightarrow> ?thesis"
    by (simp add: set_currentFrame_def)
next
  case Tick
  assume i: "in_order s"
  have "in_order (state_of (ticker_callback s))"
    unfolding ticker_callback_def
  proof (rule block_stable [where P = in_order])
    fix f t assume "f \<in> set [(\<lambda>this. if refreshLook this then Inr (reloadLook (this\<lparr>refreshLook := False\<rparr>)) else Inr this),
       (\<lambda>this. if refreshFrame this then updateFrame (this\<lparr>refreshFrame := False\<rparr>) else Inr this)]"
      and "in_order t"
    moreover have "in_order (state_of (updateFrame (t\<lparr>refreshFrame := False\<rparr>))) = in_order t"
      using in_order_issue [OF control_issue [OF updateFrame_control [of "t\<lparr>refreshFrame := False\<rparr>"]]]
      by simp
    ultimately show "in_order (state_of (f t))"
      by (auto simp: reloadLook_in_order)
  qed (rule i)
  with Tick i show ?thesis by simp
next
  case (Response k result)
  assume i: "in_order s"
  show ?thesis
  proof (cases "k < length (requests s) \<and> fst (requests s ! k) = updateId s")
    case True
    have "issue (state_of (reloadLook_then (updateId s) (snd (requests s ! k)) result s)) = issue s"
      using control_issue [OF reloadLook_then_control [of s "snd (requests s ! k)" result]]
      by (simp add: issue_def)
    from in_order_issue [OF this] True Response i show ?thesis by simp
  next
    case False
    with Response i show ?thesis by (auto simp: reloadLook_then_stale)
  qed
qed

lemma run_in_order: "in_order s \<Longrightarrow> in_order (run es s)"
  unfolding run_def by (induction es arbitrary: s) (simp_all add: handle_in_order)

lemma new_in_order: "in_order (new_BaseAvatar look x y z)"
  by (simp add: in_order_def new_BaseAvatar_def)

lemma in_order_nth:
  assumes "in_order s"
  shows "updateId s = length (requests s)"
    and "k < length (requests s) \<Longrightarrow> fst (requests s ! k) = Suc k"
proof -
  from assms have m: "map fst (requests s) = map Suc [0..<updateId s]"
    by (simp add: in_order_def)
  have "length (map fst (requests s)) = length (map Suc [0..<updateId s])"
    by (simp only: m)
  then show l: "updateId s = length (requests s)" by simp
  assume k: "k < length (requests s)"
  have "map fst (requests s) ! k = map Suc [0..<updateId s] ! k"
    by (simp only: m)
  moreover have "map fst (requests s) ! k = fst (requests s ! k)"
    using k by (rule nth_map)
  moreover have "map Suc [0..<updateId s] ! k = Suc k"
    using k by (simp add: l [symmetric])
  ultimately show "fst (requests s ! k) = Suc k" by simp
qed

text \<open>
  C1.  In every state that a run of events reaches from a new avatar, the requests issued
  so far carry the ids 1, 2, ... in the order of issue, and \<open>_updateId\<close> is the id of the
  latest.  When the response to a request arrives, whatever has arrived before: if the id
  of the request is not the latest, the continuation returns and the avatar is the same
  in every field; if it is the latest, the loader result, the look and the draw definition
  of this response are stored, and the pending look is cleared.
\<close>

theorem stale_response_discarded:
  assumes "s = run events (new_BaseAvatar look x y zIndex)"
  shows "updateId s = length (requests s) \<and>
         (\<forall>k < length (requests s).
            fst (requests s ! k) = Suc k \<and>
            (\<forall>result.
               (fst (requests s ! k) \<noteq> updateId s \<longrightarrow>
                  handle (Response k result) s = Inr s) \<and>
               (fst (requests s ! k) = updateId s \<longrightarrow>
                  avatarLoaderResult (state_of (handle (Response k result) s)) = Some result \<and>
                  lookOptions (state_of (handle (Response k result) s))
                    = Some (snd (requests s ! k)) \<and>
                  nextLookOptions (state_of (handle (Response k result) s)) = None \<and>
                  avatarDrawDefinition (state_of (handle (Response k result) s))
                    = Some (getDrawDefinition result (snd (requests s ! k))))))"
proof -
  have i: "in_order s"
    unfolding assms by (rule run_in_order) (rule new_in_order)
  note u = in_order_nth(1) [OF i] and n = in_order_nth(2) [OF i]
  have applied: "avatarLoaderResult (state_of (reloadLook_then (updateId s) l result s)) = Some result \<and>
      lookOptions (state_of (reloadLook_then (updateId s) l result s)) = Some l \<and>
      nextLookOptions (state_of (reloadLook_then (updateId s) l result s)) = None \<and>
      avatarDrawDefinition (state_of (reloadLook_then (updateId s) l result s))
        = Some (getDrawDefinition result l)" for l result
    using reloadLook_then_control [of s l result] by (simp add: control_def)
  show ?thesis
  proof (intro conjI allI impI)
    show "updateId s = length (requests s)" by (rule u)
  next
    fix k assume "k < length (requests s)"
    then show "fst (requests s ! k) = Suc k" by (rule n)
  next
    fix k result assume "k < length (requests s)" "fst (requests s ! k) \<noteq> updateId s"
    then show "handle (Response k result) s = Inr s"
      by (simp add: reloadLook_then_stale)
  next
    fix k result assume k: "k < length (requests s)" and e: "fst (requests s ! k) = updateId s"
    from k e applied [of "snd (requests s ! k)" result]
    show "avatarLoaderResult (state_of (handle (Response k result) s)) = Some result"
      and "lookOptions (state_of (handle (Response k result) s)) = Some (snd (requests s ! k))"
      and "nextLookOptions (state_of (handle (Response k result) s)) = None"
      and "avatarDrawDefinition (state_of (handle (Response k result) s))
             = Some (getDrawDefinition result (snd (requests s ! k)))"
      by simp_all
  qed
qed

lemma andThen_Inr [simp]: "andThen m Inr = m"
  by (cases m) simp_all

lemma forEach_Nil_fun [simp]: "forEach f [] = Inr"
  by (rule ext) simp

lemmas avatar_defs = run_def new_BaseAvatar_def set_dependencies_def handleDependenciesSet_def
  reloadLook_def av_mounted_def set_lookOptions_def updateLookOptions_def isSetEqual_def
  set_currentFrame_def ticker_callback_def block_def reloadLook_then_def updateSprites_def
  updateSpritesWithAvatarDrawDefinition_def showPart_def showSprite_def createAsset_def
  get_dependencies_def frame_asset_def js_rem_def updatePosition_def updateFrame_def
  get_lookOptions_def Let_def
  look_hd_def look_turned_def look_turned_again_def look_waving_def look_waving_reordered_def
  example_dependencies_def example_definition_def example_result_def

lemma two_requests_facts:
  "requests two_requests = [(1, look_hd), (2, look_turned)]"
  "updateId two_requests = 2"
  by (simp_all add: two_requests_def avatar_defs)

lemma applied_avatar_facts:
  "lookOptions (applied_avatar look) = Some look"
  "av_mounted (applied_avatar look)"
  "requests (applied_avatar look) = [(1, look)]"
  "updateId (applied_avatar look) = 1"
  by (simp_all add: applied_avatar_def avatar_defs)

lemma reloading_avatar_facts:
  "lookOptions reloading_avatar = Some look_hd"
  "get_lookOptions reloading_avatar = Inr look_turned"
  "requests reloading_avatar = [(1, look_hd), (2, look_turned)]"
  by (simp_all add: reloading_avatar_def applied_avatar_def avatar_defs)

text \<open>
  C4.  Three runs of the setter.  An avatar has applied \<open>look_hd\<close> and is reloading
  \<open>look_turned\<close>, which the getter returns as its look.  A look that differs from both in
  direction is assigned, the response to the request in flight arrives, and two ticks pass:
  no request is issued for the assigned look, and the avatar stays on \<open>look_turned\<close>.
  On the same avatar, assigning \<open>look_hd\<close>, which differs from the look the getter
  returns, changes nothing: no request follows, and the avatar ends on \<open>look_turned\<close>.
  And an avatar constructed with \<open>look_hd\<close> and given dependencies, then assigned the same
  look before the first response, issues a second request on the next tick.
\<close>

theorem reload_counterexample:
  "lookOptions reloading_avatar = Some look_hd \<and>
   get_lookOptions reloading_avatar = Inr look_turned \<and>
   lo_direction look_turned_again \<noteq> lo_direction look_hd \<and>
   lo_direction look_turned_again \<noteq> lo_direction look_turned \<and>
   requests reloading_avatar = [(1, look_hd), (2, look_turned)] \<and>
   requests (run [SetLookOptions look_turned_again, Response 1 (example_result 16), Tick, Tick]
               reloading_avatar) = [(1, look_hd), (2, look_turned)] \<and>
   requests (run [SetDependencies example_dependencies, Tick] (new_BaseAvatar look_hd 0 0 0))
     = [(1, look_hd)] \<and>
   requests (run [SetDependencies example_dependencies, SetLookOptions look_hd, Tick]
               (new_BaseAvatar look_hd 0 0 0)) = [(1, look_hd), (2, look_hd)] \<and>
   get_lookOptions
     (run [SetLookOptions look_turned_again, Response 1 (example_result 16), Tick, Tick]
        reloading_avatar) = Inr look_turned \<and>
   lo_direction look_hd \<noteq> lo_direction look_turned \<and>
   get_lookOptions (set_lookOptions look_hd reloading_avatar) = Inr look_turned \<and>
   requests (run [SetLookOptions look_hd, Tick, Response 1 (example_result 16), Tick]
               reloading_avatar) = [(1, look_hd), (2, look_turned)] \<and>
   get_lookOptions (run [SetLookOptions look_hd, Tick, Response 1 (example_result 16), Tick]
                      reloading_avatar) = Inr look_turned"
  by (simp add: reloading_avatar_def applied_avatar_def avatar_defs)

lemma response_issue: "issue (state_of (handle (Response k result) s)) = issue s"
proof (cases "k < length (requests s) \<and> fst (requests s ! k) = updateId s")
  case True
  have "issue (state_of (reloadLook_then (updateId s) (snd (requests s ! k)) result s)) = issue s"
    using control_issue [OF reloadLook_then_control [of s "snd (requests s ! k)" result]]
    by (simp add: issue_def)
  with True show ?thesis by simp
next
  case False
  then show ?thesis by (auto simp: reloadLook_then_stale)
qed

theorem stale_response_discarded_witness:
  "requests two_requests = [(1, look_hd), (2, look_turned)] \<and> updateId two_requests = 2 \<and>
   handle (Response 0 (example_result 16)) two_requests = Inr two_requests \<and>
   avatarLoaderResult (state_of (handle (Response 1 (example_result 20)) two_requests))
     = Some (example_result 20) \<and>
   lookOptions (state_of (handle (Response 1 (example_result 20)) two_requests))
     = Some look_turned \<and>
   handle (Response 0 (example_result 16))
       (state_of (handle (Response 1 (example_result 20)) two_requests))
     = Inr (state_of (handle (Response 1 (example_result 20)) two_requests))"
proof -
  define es where "es = [SetDependencies example_dependencies, SetLookOptions look_turned, Tick]"
  define late where "late = state_of (handle (Response 1 (example_result 20)) two_requests)"
  have s: "two_requests = run es (new_BaseAvatar look_hd 0 0 0)"
    by (simp add: two_requests_def es_def)
  have s': "late = run (es @ [Response 1 (example_result 20)]) (new_BaseAvatar look_hd 0 0 0)"
    unfolding late_def s by (simp add: run_def)
  have "issue late = issue two_requests"
    unfolding late_def by (rule response_issue)
  then have i': "requests late = [(1, look_hd), (2, look_turned)]" "updateId late = 2"
    by (simp_all add: issue_def two_requests_facts)
  from stale_response_discarded [OF s]
  have a: "\<And>k result. k < length (requests two_requests) \<Longrightarrow>
        fst (requests two_requests ! k) \<noteq> updateId two_requests \<Longrightarrow>
        handle (Response k result) two_requests = Inr two_requests"
    and b: "\<And>k result. k < length (requests two_requests) \<Longrightarrow>
        fst (requests two_requests ! k) = updateId two_requests \<Longrightarrow>
        avatarLoaderResult (state_of (handle (Response k result) two_requests)) = Some result \<and>
        lookOptions (state_of (handle (Response k result) two_requests))
          = Some (snd (requests two_requests ! k))"
    by blast+
  from stale_response_discarded [OF s']
  have c: "\<And>k result. k < length (requests late) \<Longrightarrow>
        fst (requests late ! k) \<noteq> updateId late \<Longrightarrow>
        handle (Response k result) late = Inr late"
    by blast
  have 1: "handle (Response 0 (example_result 16)) two_requests = Inr two_requests"
    by (rule a) (simp_all add: two_requests_facts)
  have "avatarLoaderResult (state_of (handle (Response 1 (example_result 20)) two_requests))
          = Some (example_result 20) \<and>
        lookOptions (state_of (handle (Response 1 (example_result 20)) two_requests))
          = Some (snd (requests two_requests ! 1))"
    by (rule b) (simp_all add: two_requests_facts)
  then have 2: "avatarLoaderResult late = Some (example_result 20)"
    and 3: "lookOptions late = Some look_turned"
    unfolding late_def [symmetric] by (simp_all add: two_requests_facts)
  have 4: "handle (Response 0 (example_result 16)) late = Inr late"
    by (rule c) (simp_all add: i')
  from 1 2 3 4 show ?thesis
    unfolding late_def [symmetric] by (simp only: two_requests_facts simp_thms)
qed

lemma js_rem_nat: "js_rem (int f) n = (if n = 0 then None else Some (int (f mod n)))"
  by (simp add: js_rem_def zmod_int)

lemma js_rem_nonneg:
  "0 \<le> f \<Longrightarrow> js_rem f n = (if n = 0 then None else Some (int (nat f mod n)))"
  using js_rem_nat [of "nat f" n] by simp

lemma frame_asset_nonneg:
  "0 \<le> f \<Longrightarrow> frame_asset f as = (if as = [] then None else Some (as ! (nat f mod length as)))"
  by (simp add: frame_asset_def js_rem_nonneg)

lemma frame_asset_period:
  assumes "0 \<le> f"
  shows "frame_asset (f + int (length as)) as = frame_asset f as"
proof -
  have "nat (f + int (length as)) = nat f + length as"
    using assms by (simp add: nat_add_distrib)
  with assms show ?thesis
    by (simp add: frame_asset_nonneg)
qed

lemma showSprite_shows:
  assumes "sprite < length (spriteStore this)" and "av_container this \<noteq> None"
  shows "shows_asset asset (showSprite asset sprite this)"
  using assms by (auto simp: shows_asset_def showSprite_def)

lemma showPart_cached:
  assumes "frame_asset f (dp_assets part) = Some asset"
    and "sprites this (a_fileId asset) = Some sprite"
    and "sprite < length (spriteStore this)" and "av_container this \<noteq> None"
  shows "returns (showPart f part this) \<and> shows_asset asset (state_of (showPart f part this))"
  using assms by (simp add: showPart_def showSprite_shows)

lemma showPart_created:
  assumes "frame_asset f (dp_assets part) = Some asset"
    and "sprites this (a_fileId asset) = None"
    and "avatarLoaderResult this = Some r" and "getTexture r (a_fileId asset) = Some t"
    and "av_dependencies this \<noteq> None" and "av_container this \<noteq> None"
  shows "returns (showPart f part this) \<and> shows_asset asset (state_of (showPart f part this))"
proof -
  obtain d where d: "av_dependencies this = Some d" using assms(5) by auto
  show ?thesis
    using assms d
    by (simp add: showPart_def createAsset_def get_dependencies_def)
       (rule showSprite_shows, simp_all)
qed

lemma showPart_no_texture:
  assumes "frame_asset f (dp_assets part) = Some asset"
    and "sprites this (a_fileId asset) = None"
    and "avatarLoaderResult this = Some r" and "getTexture r (a_fileId asset) = None"
  shows "showPart f part this = Inr this"
  using assms by (simp add: showPart_def createAsset_def)

text \<open>
  C5, for frame indices that are not negative.  The asset of a part at frame \<open>f\<close> is
  \<open>assets[f mod n]\<close>, \<open>n\<close> the number of its assets, and \<open>undefined\<close> when the part has
  no asset, where the rebuild throws.  The asset and all that the rebuild does for the part
  are the same at \<open>f + n\<close>.  The rebuild shows this asset: when its sprite is cached, or
  when the loader has a texture for it, the rebuild of the part returns, and the sprite
  stored under the file id of \<open>assets[f mod n]\<close> is a child of the container, visible,
  hit-testable, and placed and mirrored as the asset says.
\<close>

theorem frame_cycling:
  assumes "0 \<le> f"
  shows "frame_asset f as = (if as = [] then None else Some (as ! (nat f mod length as))) \<and>
   frame_asset (f + int (length as)) as = frame_asset f as \<and>
   showPart (f + int (length (dp_assets part))) part this = showPart f part this \<and>
   (dp_assets part = [] \<longrightarrow> showPart f part this = Inl (TypeError, this)) \<and>
   (dp_assets part \<noteq> [] \<and> av_container this \<noteq> None \<and>
    sprites this (a_fileId (dp_assets part ! (nat f mod length (dp_assets part)))) = Some sprite \<and>
    sprite < length (spriteStore this) \<longrightarrow>
      returns (showPart f part this) \<and>
      shows_asset (dp_assets part ! (nat f mod length (dp_assets part)))
        (state_of (showPart f part this))) \<and>
   (dp_assets part \<noteq> [] \<and> av_container this \<noteq> None \<and>
    sprites this (a_fileId (dp_assets part ! (nat f mod length (dp_assets part)))) = None \<and>
    avatarLoaderResult this = Some r \<and>
    getTexture r (a_fileId (dp_assets part ! (nat f mod length (dp_assets part)))) = Some t \<and>
    av_dependencies this \<noteq> None \<longrightarrow>
      returns (showPart f part this) \<and>
      shows_asset (dp_assets part ! (nat f mod length (dp_assets part)))
        (state_of (showPart f part this)))"
proof (intro conjI impI)
  show "frame_asset f as = (if as = [] then None else Some (as ! (nat f mod length as)))"
    by (rule frame_asset_nonneg [OF assms])
  show "frame_asset (f + int (length as)) as = frame_asset f as"
    by (rule frame_asset_period [OF assms])
  show "showPart (f + int (length (dp_assets part))) part this = showPart f part this"
    by (simp add: showPart_def frame_asset_period [OF assms])
  show "showPart f part this = Inl (TypeError, this)" if "dp_assets part = []"
    using that by (simp add: showPart_def frame_asset_nonneg [OF assms])
next
  let ?asset = "dp_assets part ! (nat f mod length (dp_assets part))"
  assume a: "dp_assets part \<noteq> [] \<and> av_container this \<noteq> None \<and>
    sprites this (a_fileId ?asset) = Some sprite \<and> sprite < length (spriteStore this)"
  then have "frame_asset f (dp_assets part) = Some ?asset"
    by (simp add: frame_asset_nonneg [OF assms])
  from showPart_cached [OF this] a
  show "returns (showPart f part this)"
    and "shows_asset ?asset (state_of (showPart f part this))"
    by blast+
next
  let ?asset = "dp_assets part ! (nat f mod length (dp_assets part))"
  assume a: "dp_assets part \<noteq> [] \<and> av_container this \<noteq> None \<and>
    sprites this (a_fileId ?asset) = None \<and> avatarLoaderResult this = Some r \<and>
    getTexture r (a_fileId ?asset) = Some t \<and> av_dependencies this \<noteq> None"
  then have "frame_asset f (dp_assets part) = Some ?asset"
    by (simp add: frame_asset_nonneg [OF assms])
  from showPart_created [OF this] a
  show "returns (showPart f part this)"
    and "shows_asset ?asset (state_of (showPart f part this))"
    by blast+
qed


lemma example_part_assets:
  "dp_assets example_part =
     [\<lparr>a_fileId = ''h_std_hd_1_2_0'', a_x = 0, a_y = 0, a_mirror = False\<rparr>,
      \<lparr>a_fileId = ''h_std_hd_1_2_1'', a_x = 1, a_y = 0, a_mirror = False\<rparr>]"
  by (simp add: example_part_def example_definition_def)

lemma applied_avatar_sprites:
  "av_container (applied_avatar look) = Some \<lparr>ct_children = [0], ct_x = 0, ct_y = 16\<rparr>"
  "sprites (applied_avatar look) ''h_std_hd_1_2_0'' = Some 0"
  "sprites (applied_avatar look) ''h_std_hd_1_2_1'' = None"
  "avatarLoaderResult (applied_avatar look) = Some (example_result 16)"
  "av_dependencies (applied_avatar look) = Some example_dependencies"
  "avatarDrawDefinition (applied_avatar look) = Some (example_definition 16)"
  "subscriptions (applied_avatar look) = 1"
  "currentFrame (applied_avatar look) = 0"
  by (simp_all add: applied_avatar_def avatar_defs)

theorem frame_cycling_witness:
  "(0::int) \<le> 3 \<and> length (dp_assets example_part) = 2 \<and>
   frame_asset 3 (dp_assets example_part) = Some (dp_assets example_part ! 1) \<and>
   frame_asset 5 (dp_assets example_part) = frame_asset 3 (dp_assets example_part) \<and>
   returns (showPart 3 example_part (applied_avatar look_hd)) \<and>
   shows_asset (dp_assets example_part ! 1)
     (state_of (showPart 3 example_part (applied_avatar look_hd)))"
proof -
  have n: "length (dp_assets example_part) = 2"
    and ne: "dp_assets example_part \<noteq> []"
    and id: "a_fileId (dp_assets example_part ! 1) = ''h_std_hd_1_2_1''"
    by (simp_all add: example_part_assets)
  have i: "nat 3 mod length (dp_assets example_part) = 1"
    unfolding n by simp
  note t = frame_cycling [of 3 "dp_assets example_part" example_part "applied_avatar look_hd"
      0 "example_result 16" 5, unfolded i n]
  have pre: "dp_assets example_part \<noteq> [] \<and> av_container (applied_avatar look_hd) \<noteq> None \<and>
    sprites (applied_avatar look_hd) (a_fileId (dp_assets example_part ! 1)) = None \<and>
    avatarLoaderResult (applied_avatar look_hd) = Some (example_result 16) \<and>
    getTexture (example_result 16) (a_fileId (dp_assets example_part ! 1)) = Some 5 \<and>
    av_dependencies (applied_avatar look_hd) \<noteq> None"
    using id by (simp add: ne applied_avatar_sprites) (simp add: example_result_def)
  from t pre have 1: "frame_asset 3 (dp_assets example_part)
        = (if dp_assets example_part = [] then None else Some (dp_assets example_part ! 1))"
    and 2: "frame_asset (3 + int 2) (dp_assets example_part) = frame_asset 3 (dp_assets example_part)"
    and 3: "returns (showPart 3 example_part (applied_avatar look_hd))"
    and 4: "shows_asset (dp_assets example_part ! 1)
        (state_of (showPart 3 example_part (applied_avatar look_hd)))"
    by simp_all
  from 1 2 3 4 n ne show ?thesis by simp
qed


text \<open>
  C5, as stated, fails at a negative frame index.  The part has two assets and the frame is
  \<open>-1\<close>: \<open>-1 mod 2\<close> is 1, but JavaScript's \<open>-1 % 2\<close> is \<open>-1\<close>, no asset is selected,
  the rebuild throws a \<open>TypeError\<close>, and the tick leaves an empty container that shows
  no asset.
\<close>

theorem frame_cycling_counterexample:
  "length (dp_assets example_part) = 2 \<and> (- 1) mod (2::int) = 1 \<and>
   frame_asset (- 1) (dp_assets example_part) = None \<and>
   showPart (- 1) example_part (applied_avatar look_hd)
     = Inl (TypeError, applied_avatar look_hd) \<and>
   \<not> returns (handle Tick (set_currentFrame (- 1) (applied_avatar look_hd))) \<and>
   av_container (state_of (handle Tick (set_currentFrame (- 1) (applied_avatar look_hd))))
     = Some \<lparr>ct_children = [], ct_x = 0, ct_y = 0\<rparr> \<and>
   \<not> shows_asset (dp_assets example_part ! 1)
       (state_of (handle Tick (set_currentFrame (- 1) (applied_avatar look_hd))))"
proof -
  have n: "length (dp_assets example_part) = 2"
    by (simp add: example_part_assets)
  have f: "frame_asset (- 1) (dp_assets example_part) = None"
    by (simp add: frame_asset_def js_rem_def n)
  have p: "showPart (- 1) example_part (applied_avatar look_hd)
     = Inl (TypeError, applied_avatar look_hd)"
    by (simp add: showPart_def f)
  have r: "\<not> returns (handle Tick (set_currentFrame (- 1) (applied_avatar look_hd)))"
    and c: "av_container (state_of (handle Tick (set_currentFrame (- 1) (applied_avatar look_hd))))
     = Some \<lparr>ct_children = [], ct_x = 0, ct_y = 0\<rparr>"
    by (simp_all add: applied_avatar_def avatar_defs returns_def)
  from c have "\<not> shows_asset (dp_assets example_part ! 1)
       (state_of (handle Tick (set_currentFrame (- 1) (applied_avatar look_hd))))"
    by (simp add: shows_asset_def split: option.splits)
  with n f p r c show ?thesis by simp
qed

end
